theory Spec2Isabelle
  imports Main
begin

section \<open>Python values used by main.py\<close>

text \<open>
  The script \<^verbatim>\<open>main.py\<close> formats integers into file names and messages, joins path
  components and splits file names at the extension. These are the string functions
  of the Python library it relies on, written out as HOL functions on \<open>string\<close>.
\<close>

type_synonym path = string

definition digit_char :: "nat \<Rightarrow> char" where
  "digit_char d = ''0123456789'' ! d"

text \<open>\<^verbatim>\<open>str(n)\<close> for a non-negative integer: its decimal digits.\<close>

fun str_nat :: "nat \<Rightarrow> string" where
  "str_nat n = (if n < 10 then [digit_char n] else str_nat (n div 10) @ [digit_char (n mod 10)])"

declare str_nat.simps [simp del]

text \<open>\<^verbatim>\<open>str(i)\<close> for a Python integer.\<close>

definition str_int :: "int \<Rightarrow> string" where
  "str_int i = (if i < 0 then CHR ''-'' # str_nat (nat (- i)) else str_nat (nat i))"

text \<open>The format \<^verbatim>\<open>{i:05}\<close> of a non-negative integer: zero-filled to five characters.\<close>

definition fmt05 :: "nat \<Rightarrow> string" where
  "fmt05 i = replicate (5 - length (str_nat i)) CHR ''0'' @ str_nat i"

text \<open>\<^verbatim>\<open>' '.join(cmd)\<close>.\<close>

fun join_sp :: "string list \<Rightarrow> string" where
  "join_sp [] = []"
| "join_sp [x] = x"
| "join_sp (x # y # ys) = x @ '' '' @ join_sp (y # ys)"

text \<open>\<^verbatim>\<open>s.split(' ')\<close>: split at every single space, empty pieces kept.\<close>

fun split_sp :: "string \<Rightarrow> string list" where
  "split_sp [] = [[]]"
| "split_sp (c # cs) =
     (if c = CHR '' '' then [] # split_sp cs
      else (case split_sp cs of [] \<Rightarrow> [[c]] | w # ws \<Rightarrow> (c # w) # ws))"

text \<open>\<^verbatim>\<open>str(xs)\<close> for a list of non-negative integers, as in \<^verbatim>\<open>[0, 1, 2]\<close>.\<close>

fun join_comma :: "string list \<Rightarrow> string" where
  "join_comma [] = []"
| "join_comma [x] = x"
| "join_comma (x # y # ys) = x @ '', '' @ join_comma (y # ys)"

definition str_nat_list :: "nat list \<Rightarrow> string" where
  "str_nat_list xs = ''['' @ join_comma (map str_nat xs) @ '']''"

text \<open>
  \<^verbatim>\<open>os.path.join(a, b)\<close> with the POSIX separator: an absolute second component
  replaces the first, otherwise the two are joined by one slash.
\<close>

definition path_join :: "path \<Rightarrow> path \<Rightarrow> path" where
  "path_join a b =
     (if b \<noteq> [] \<and> hd b = CHR ''/'' then b
      else if a = [] \<or> last a = CHR ''/'' then a @ b
      else a @ ''/'' @ b)"

text \<open>
  \<^verbatim>\<open>os.path.splitext(p)\<close>: the extension starts at the last dot of the last path
  component, unless that component has only leading dots before it.
  \<open>rfind c p\<close> is Python's \<^verbatim>\<open>p.rfind(c)\<close>, with \<open>None\<close> for \<open>-1\<close>.
\<close>

fun rfind_from :: "char \<Rightarrow> string \<Rightarrow> nat \<Rightarrow> nat option \<Rightarrow> nat option" where
  "rfind_from c [] k acc = acc"
| "rfind_from c (x # xs) k acc = rfind_from c xs (Suc k) (if x = c then Some k else acc)"

definition rfind :: "char \<Rightarrow> string \<Rightarrow> nat option" where
  "rfind c p = rfind_from c p 0 None"

definition splitext :: "path \<Rightarrow> string \<times> string" where
  "splitext p =
     (case rfind CHR ''.'' p of
        None \<Rightarrow> (p, [])
      | Some dotIndex \<Rightarrow>
          (let filenameIndex = (case rfind CHR ''/'' p of None \<Rightarrow> 0 | Some sepIndex \<Rightarrow> Suc sepIndex)
           in if filenameIndex \<le> dotIndex
                 \<and> list_ex (\<lambda>c. c \<noteq> CHR ''.'') (take (dotIndex - filenameIndex) (drop filenameIndex p))
              then (take dotIndex p, drop dotIndex p)
              else (p, [])))"

section \<open>The process state: file system, cancellation flag, trace\<close>

text \<open>
  The state the script acts on: the regular files and the directories that exist (as
  sets of paths), the module-level \<^verbatim>\<open>exit_event\<close>, and the trace of what the
  process did to the outside: the lines it printed and the external commands it ran,
  in order.
\<close>

datatype capture = PIPE | DEVNULL

datatype event = Print string | Spawn "string list" capture

record state =
  files :: "path set"
  dirs :: "path set"
  exit_event :: bool
  trace :: "event list"

text \<open>
  Exceptions are values. \<open>SystemExit n\<close> is what \<^verbatim>\<open>sys.exit(n)\<close> raises; the others
  are the faults of the library calls the script makes.
\<close>

datatype pyexc =
    SystemExit int
  | FileNotFoundError
  | NotADirectoryError
  | IsADirectoryError
  | FileExistsError
  | ValueError string
  | OverflowError string
  | NameError
  | UnboundLocalError
  | UnicodeDecodeError string

datatype 'a res = Return 'a | Raise pyexc

type_synonym 'a py = "state \<Rightarrow> 'a res \<times> state"

text \<open>Sequencing: the second action runs only if the first one returned.\<close>

definition seq :: "'a py \<Rightarrow> 'b py \<Rightarrow> 'b py" where
  "seq m k s = (case m s of (Return _, s') \<Rightarrow> k s' | (Raise e, s') \<Rightarrow> (Raise e, s'))"

definition return_unit :: "unit py" where
  "return_unit s = (Return (), s)"

definition raise :: "pyexc \<Rightarrow> 'a py" where
  "raise e s = (Raise e, s)"

definition print :: "string \<Rightarrow> unit py" where
  "print x s = (Return (), s\<lparr>trace := trace s @ [Print x]\<rparr>)"

text \<open>
  The exit status of the process when the main thread ends with the given result: 0
  on a normal return, the argument of \<^verbatim>\<open>sys.exit\<close>, and 1 for any other
  exception, which the interpreter reports with a traceback.
\<close>

fun exit_status :: "'a res \<Rightarrow> int" where
  "exit_status (Return _) = 0"
| "exit_status (Raise (SystemExit n)) = n"
| "exit_status (Raise _) = 1"

definition isfile :: "path \<Rightarrow> state \<Rightarrow> bool" where
  "isfile p s = (p \<in> files s)"

definition exists :: "path \<Rightarrow> state \<Rightarrow> bool" where
  "exists p s = (p \<in> files s \<or> p \<in> dirs s)"

text \<open>\<open>is_child d p\<close>: the path \<open>p\<close> is an entry directly inside the directory \<open>d\<close>.\<close>

definition is_child :: "path \<Rightarrow> path \<Rightarrow> bool" where
  "is_child d p =
     (let pre = (if d \<noteq> [] \<and> last d = CHR ''/'' then d else d @ ''/'')
      in take (length pre) p = pre \<and> drop (length pre) p \<noteq> []
         \<and> CHR ''/'' \<notin> set (drop (length pre) p))"

definition children :: "path \<Rightarrow> path set \<Rightarrow> path set" where
  "children d S = {p \<in> S. is_child d p}"

section \<open>Staging area: cleanup (main.py lines 24-27)\<close>

text \<open>
  \<^verbatim>\<open>
  def cleanup(temp_directory):
      for path_file in os.scandir(temp_directory):
          os.remove(path_file.path)
      os.rmdir(temp_directory)
  \<close>
  \<^verbatim>\<open>os.scandir\<close> raises when the directory does not exist (or is a regular file);
  \<^verbatim>\<open>os.remove\<close> raises on an entry that is a directory. In that last case the
  entries scanned before the subdirectory are already gone; the scan order is not
  fixed by the library, and the model takes the order in which the subdirectory
  comes first, so nothing has been removed. Otherwise every entry is removed and
  then the directory itself.
\<close>

definition cleanup :: "path \<Rightarrow> unit py" where
  "cleanup temp_directory s =
     (if temp_directory \<in> dirs s then
        (if children temp_directory (dirs s) \<noteq> {} then (Raise IsADirectoryError, s)
         else (Return (),
               s\<lparr>files := files s - children temp_directory (files s),
                 dirs := dirs s - {temp_directory}\<rparr>))
      else if temp_directory \<in> files s then (Raise NotADirectoryError, s)
      else (Raise FileNotFoundError, s))"

section \<open>The outside world\<close>

text \<open>
  Everything the script asks of its environment is a field of the record \<open>world\<close>,
  so that every theorem holds for whatever the environment answers.

  \<^item> Python floats are kept abstract: \<open>'f\<close> is the type of floats, and the record
    carries the float operations the script uses: \<^verbatim>\<open>float(s)\<close> (\<open>Inl\<close> is the message
    of the \<^verbatim>\<open>ValueError\<close>), \<^verbatim>\<open>x / 100\<close>, \<^verbatim>\<open>n * x\<close> for an integer \<open>n\<close>, \<^verbatim>\<open>int(x)\<close>
    (truncation toward zero; it raises on a NaN or an infinity), \<^verbatim>\<open>x != y\<close> and
    \<^verbatim>\<open>str(x)\<close>.
  \<^item> \<^verbatim>\<open>os.access(p, os.X_OK)\<close> and \<^verbatim>\<open>shutil.which(name)\<close>.
  \<^item> OpenCV: how many frames a capture of a path delivers before \<^verbatim>\<open>read()\<close> reports
    failure, its frame rate and its frame size (already converted by \<^verbatim>\<open>int\<close>), and
    whether \<^verbatim>\<open>cv2.imwrite\<close> of a frame file reports success.
  \<^item> \<^verbatim>\<open>subprocess.run(cmd, check=True, ...)\<close>: the process exits with a status and its
    two output streams, or the call itself faults (\<open>Fault\<close> with the message of the
    exception). An output stream is a byte string; \<open>Undecodable\<close> stands for bytes
    on which \<^verbatim>\<open>.decode('utf-8')\<close> raises.

  What the external programs do to the file system is an assumption of the model,
  the one the pipeline itself relies on: a frame file is written by \<^verbatim>\<open>cv2.imwrite\<close> exactly when
  it reports success, the resizer writes its \<^verbatim>\<open>/save\<close> target exactly when it exits
  with status 0, both only while the staging directory exists, and the multiplexer
  writes its output file exactly when it exits with status 0. The progress bar
  (written to the error stream by \<^verbatim>\<open>tqdm\<close>) is not part of the trace.
\<close>

datatype stream = Text string | Undecodable string

datatype proc_result = Exited int stream stream | Fault string

record 'f world =
  float_of_str :: "string \<Rightarrow> string + 'f"
  float_div100 :: "'f \<Rightarrow> 'f"
  int_times_float :: "int \<Rightarrow> 'f \<Rightarrow> 'f"
  int_of_float :: "'f \<Rightarrow> pyexc + int"
  float_ne :: "'f \<Rightarrow> 'f \<Rightarrow> bool"
  str_float :: "'f \<Rightarrow> string"
  access_x_ok :: "path \<Rightarrow> bool"
  which :: "string \<Rightarrow> bool"
  cv2_frames :: "path \<Rightarrow> nat"
  cv2_fps :: "path \<Rightarrow> 'f"
  cv2_size :: "path \<Rightarrow> int \<times> int"
  cv2_imwrite :: "path \<Rightarrow> bool"
  subprocess_run :: "string list \<Rightarrow> proc_result"

text \<open>The sections of \<^verbatim>\<open>config.ini\<close> the script reads; all values are strings.\<close>

record config =
  cfg_imageresizer_path :: string
  cfg_output_scale_factor :: string
  cfg_output_container :: string
  cfg_upscaler_magnification_factor :: string
  cfg_upscaler_algorithm :: string
  cfg_ffmpeg_args :: string

definition write_file :: "path \<Rightarrow> path \<Rightarrow> state \<Rightarrow> state" where
  "write_file dir p s = (if dir \<in> dirs s then s\<lparr>files := insert p (files s)\<rparr> else s)"

definition spawn :: "string list \<Rightarrow> capture \<Rightarrow> state \<Rightarrow> state" where
  "spawn cmd c s = s\<lparr>trace := trace s @ [Spawn cmd c]\<rparr>"

definition nl :: string where
  "nl = [CHR 0x0A]"

section \<open>Dependency check and probing (main.py lines 29-55)\<close>

definition check_dependencies :: "'f world \<Rightarrow> config \<Rightarrow> unit py" where
  "check_dependencies w cfg s =
     (if \<not> (isfile (cfg_imageresizer_path cfg) s \<and> access_x_ok w (cfg_imageresizer_path cfg)) then
        seq (print (''Error: ImageResizer must be correctly installed and executable. Current path:''
                    @ nl @ ''ImageResizer: '' @ cfg_imageresizer_path cfg))
            (raise (SystemExit 1)) s
      else if \<not> which w ''ffmpeg'' then
        seq (print (''Error: ffmpeg must be correctly installed. Current path:''
                    @ nl @ ''ffmpeg: '' @ ''ffmpeg''))
            (raise (SystemExit 1)) s
      else (Return (), s))"

definition get_fps :: "'f world \<Rightarrow> path \<Rightarrow> 'f py" where
  "get_fps w video_path s =
     (if \<not> isfile video_path s then
        seq (print (''Error: input video file not found. Given path:'' @ nl @ video_path))
            (raise (SystemExit 1)) s
      else (Return (cv2_fps w video_path), s))"

definition get_resolution :: "'f world \<Rightarrow> path \<Rightarrow> int \<times> int" where
  "get_resolution w video_path = cv2_size w video_path"

section \<open>Frame extraction (main.py lines 57-69)\<close>

text \<open>
  \<open>imwrite\<close> is \<^verbatim>\<open>cv2.imwrite(frame_file, image)\<close> together with its effect: the
  returned flag, and the file written when the flag is true.
\<close>

definition imwrite :: "'f world \<Rightarrow> path \<Rightarrow> path \<Rightarrow> state \<Rightarrow> bool \<times> state" where
  "imwrite w dir frame_file s =
     (if cv2_imwrite w frame_file \<and> dir \<in> dirs s then (True, write_file dir frame_file s)
      else (False, s))"

definition raw_frame :: "path \<Rightarrow> nat \<Rightarrow> path" where
  "raw_frame temp_directory i = path_join temp_directory (''frame_'' @ fmt05 i @ ''.png'')"

definition up_frame :: "path \<Rightarrow> nat \<Rightarrow> path" where
  "up_frame temp_directory i = path_join temp_directory (''frame_'' @ fmt05 i @ ''_up.png'')"

text \<open>
  The loop of \<^verbatim>\<open>extract_frames\<close>, entered with the current \<^verbatim>\<open>count\<close>: the
  \<open>count\<close>-th \<^verbatim>\<open>vidcap.read()\<close> succeeds while \<open>count\<close> is below the number of frames
  the capture delivers.
\<close>

function extract_loop :: "'f world \<Rightarrow> path \<Rightarrow> path \<Rightarrow> nat \<Rightarrow> nat py" where
  "extract_loop w video_path temp_directory count s =
     (if count < cv2_frames w video_path then
        (let frame_file = raw_frame temp_directory count;
             r = imwrite w temp_directory frame_file s
         in if \<not> fst r \<or> \<not> exists frame_file (snd r) then
              seq (print (''Frame extraction failed for frame '' @ str_nat count))
                  (raise (SystemExit 1)) (snd r)
            else extract_loop w video_path temp_directory (Suc count) (snd r))
      else (Return count, s))"
  by pat_completeness auto
termination
  by (relation "measure (\<lambda>(w, video_path, temp_directory, count, s). cv2_frames w video_path - count)")
     auto

declare extract_loop.simps [simp del]

definition extract_frames :: "'f world \<Rightarrow> path \<Rightarrow> path \<Rightarrow> nat py" where
  "extract_frames w video_path temp_directory = extract_loop w video_path temp_directory 0"

section \<open>Upscaling one frame (main.py lines 71-104)\<close>

text \<open>
  The command of lines 79-82, from the values computed before it: the two target
  dimensions and the float read from the magnification factor.
\<close>

definition upscale_cmd ::
  "'f world \<Rightarrow> string \<Rightarrow> path \<Rightarrow> path \<Rightarrow> 'f \<Rightarrow> string \<Rightarrow> 'f \<Rightarrow> string \<Rightarrow> int \<Rightarrow> int
     \<Rightarrow> string list" where
  "upscale_cmd w imageresizer_path in_frame out_frame scale_factor magnification_factor
       magnification_float algorithm new_width new_height =
     (if float_ne w scale_factor magnification_float then
        [imageresizer_path, ''/load'', in_frame, ''/resize'', ''auto'',
         algorithm @ '' '' @ magnification_factor @ ''x'',
         ''/resize'', str_int new_width @ ''x'' @ str_int new_height, ''Lanczos'',
         ''/save'', out_frame]
      else
        [imageresizer_path, ''/load'', in_frame, ''/resize'', ''auto'',
         algorithm @ '' '' @ magnification_factor @ ''x'',
         ''/save'', out_frame])"

text \<open>
  The two handlers of \<^verbatim>\<open>upscale_frame\<close>. In the second one \<open>cmd\<close> is \<open>None\<close> when
  the exception was raised before the assignment of \<^verbatim>\<open>cmd\<close>; reading the
  variable then raises \<^verbatim>\<open>UnboundLocalError\<close>, which leaves the handler before
  \<^verbatim>\<open>cleanup\<close>. In the first, \<^verbatim>\<open>e.output\<close> is the captured standard output.
\<close>

definition upscale_called_process_error ::
  "nat \<Rightarrow> path \<Rightarrow> bool \<Rightarrow> string list \<Rightarrow> int \<Rightarrow> stream \<Rightarrow> unit py" where
  "upscale_called_process_error i temp_directory verbose cmd returncode out =
     seq (print (''Error: Upscaling frame '' @ str_nat i @ '' failed with exit code ''
                 @ str_int returncode @ ''.''))
    (seq (if verbose then
            seq (print (''Command: '' @ join_sp cmd))
                (case out of
                   Text t \<Rightarrow> print (''Output: '' @ t)
                 | Undecodable msg \<Rightarrow> raise (UnicodeDecodeError msg))
          else return_unit)
    (seq (cleanup temp_directory) (raise (SystemExit 1))))"

definition upscale_exception ::
  "nat \<Rightarrow> path \<Rightarrow> bool \<Rightarrow> string list option \<Rightarrow> string \<Rightarrow> unit py" where
  "upscale_exception i temp_directory verbose cmd msg =
     seq (print (''Unexpected error occurred during upscaling frame '' @ str_nat i @ '': '' @ msg))
    (seq (if verbose then
            (case cmd of
               Some c \<Rightarrow> print (''Command: '' @ join_sp c)
             | None \<Rightarrow> raise UnboundLocalError)
          else return_unit)
    (seq (cleanup temp_directory) (raise (SystemExit 1))))"

definition upscale_frame ::
  "'f world \<Rightarrow> nat \<Rightarrow> path \<Rightarrow> string \<Rightarrow> 'f \<Rightarrow> string \<Rightarrow> string \<Rightarrow> int \<times> int \<Rightarrow> bool \<Rightarrow> unit py" where
  "upscale_frame w i temp_directory imageresizer_path scale_factor magnification_factor algorithm
       original_resolution verbose s =
     (case int_of_float w (int_times_float w (fst original_resolution) scale_factor) of
        Inl e \<Rightarrow> (Raise e, s)
      | Inr new_width \<Rightarrow>
     (case int_of_float w (int_times_float w (snd original_resolution) scale_factor) of
        Inl e \<Rightarrow> (Raise e, s)
      | Inr new_height \<Rightarrow>
     (let in_frame = raw_frame temp_directory i;
          out_frame = up_frame temp_directory i
      in case float_of_str w magnification_factor of
           Inl msg \<Rightarrow> upscale_exception i temp_directory verbose None msg s
         | Inr magnification_float \<Rightarrow>
     (let cmd = upscale_cmd w imageresizer_path in_frame out_frame scale_factor
                  magnification_factor magnification_float algorithm new_width new_height;
          s1 = (if verbose then snd (print (''Running command: '' @ join_sp cmd) s) else s);
          s2 = spawn cmd PIPE s1
      in case subprocess_run w cmd of
           Fault msg \<Rightarrow> upscale_exception i temp_directory verbose (Some cmd) msg s2
         | Exited returncode out err \<Rightarrow>
             if returncode \<noteq> 0 then
               upscale_called_process_error i temp_directory verbose cmd returncode out s2
             else
               (let s3 = write_file temp_directory out_frame s2
                in if verbose then
                     (case out of
                        Undecodable msg \<Rightarrow>
                          upscale_exception i temp_directory verbose (Some cmd) msg s3
                      | Text t \<Rightarrow>
                          (case err of
                             Undecodable msg \<Rightarrow>
                               upscale_exception i temp_directory verbose (Some cmd) msg
                                 (snd (print t s3))
                           | Text u \<Rightarrow> seq (print t) (print u) s3))
                   else (Return (), s3))))))"

section \<open>Dispatch over all frames (main.py lines 106-111)\<close>

text \<open>
  \<^verbatim>\<open>upscale_frames\<close> submits one task per frame index to a thread pool, all of them
  before it waits for any, and then only iterates over the completed futures without
  reading their results. An exception that ends a task, \<^verbatim>\<open>SystemExit\<close> included,
  is stored in the task's future by the pool and never raised in the main thread, so
  the result of a task is dropped and only its effect on the state remains.

  \<open>upscale_frames\<close> runs the tasks one after the other in the order of submission, a
  task being one step. The pool itself runs several tasks at a time: this is one of
  its schedules, the one in which every task has ended before the next one starts
  (the next section has the pool with its schedule made explicit). It is used for
  the runs in which the order of the tasks' steps is not in question: a single
  frame, or tasks that all succeed and so only add their own file each.
\<close>

definition run_task :: "unit py \<Rightarrow> state \<Rightarrow> state" where
  "run_task task s = snd (task s)"

definition upscale_frames ::
  "'f world \<Rightarrow> path \<Rightarrow> nat \<Rightarrow> string \<Rightarrow> 'f \<Rightarrow> string \<Rightarrow> string \<Rightarrow> int \<times> int \<Rightarrow> bool \<Rightarrow> unit py" where
  "upscale_frames w temp_directory total_frames imageresizer_path scale_factor magnification_factor
       algorithm original_resolution verbose s =
     (Return (),
      foldl (\<lambda>s' i. run_task (upscale_frame w i temp_directory imageresizer_path scale_factor
                                 magnification_factor algorithm original_resolution verbose) s')
            s [0..<total_frames])"

section \<open>The schedule of the thread pool\<close>

text \<open>
  \<^verbatim>\<open>ThreadPoolExecutor()\<close> keeps the submitted tasks in a queue, in the order of
  submission, and runs at most \<open>max_workers\<close> of them at a time (by default the
  number of processors plus four, at most 32, so at least five); a worker that has
  ended a task takes the next one from the queue. A task spends its time in
  \<^verbatim>\<open>subprocess.run\<close> (line 87), waiting for its resizer, and the other workers run
  meanwhile. So a task is two steps here: \<open>upscale_frame_start\<close> is
  \<^verbatim>\<open>upscale_frame\<close> up to the launch of the resizer, and gives the command the task
  then waits for, or \<open>None\<close> when the task has ended without launching one;
  \<open>upscale_frame_end\<close> is \<^verbatim>\<open>upscale_frame\<close> from the end of the resizer on.
\<close>

definition upscale_frame_start ::
  "'f world \<Rightarrow> nat \<Rightarrow> path \<Rightarrow> string \<Rightarrow> 'f \<Rightarrow> string \<Rightarrow> string \<Rightarrow> int \<times> int \<Rightarrow> bool \<Rightarrow> state
     \<Rightarrow> string list option \<times> state" where
  "upscale_frame_start w i temp_directory imageresizer_path scale_factor magnification_factor
       algorithm original_resolution verbose s =
     (case int_of_float w (int_times_float w (fst original_resolution) scale_factor) of
        Inl e \<Rightarrow> (None, s)
      | Inr new_width \<Rightarrow>
     (case int_of_float w (int_times_float w (snd original_resolution) scale_factor) of
        Inl e \<Rightarrow> (None, s)
      | Inr new_height \<Rightarrow>
     (let in_frame = raw_frame temp_directory i;
          out_frame = up_frame temp_directory i
      in case float_of_str w magnification_factor of
           Inl msg \<Rightarrow> (None, snd (upscale_exception i temp_directory verbose None msg s))
         | Inr magnification_float \<Rightarrow>
     (let cmd = upscale_cmd w imageresizer_path in_frame out_frame scale_factor
                  magnification_factor magnification_float algorithm new_width new_height;
          s1 = (if verbose then snd (print (''Running command: '' @ join_sp cmd) s) else s)
      in (Some cmd, spawn cmd PIPE s1)))))"

definition upscale_frame_end ::
  "'f world \<Rightarrow> nat \<Rightarrow> path \<Rightarrow> bool \<Rightarrow> string list \<Rightarrow> state \<Rightarrow> state" where
  "upscale_frame_end w i temp_directory verbose cmd s2 =
     snd (case subprocess_run w cmd of
            Fault msg \<Rightarrow> upscale_exception i temp_directory verbose (Some cmd) msg s2
          | Exited returncode out err \<Rightarrow>
              if returncode \<noteq> 0 then
                upscale_called_process_error i temp_directory verbose cmd returncode out s2
              else
                (let s3 = write_file temp_directory (up_frame temp_directory i) s2
                 in if verbose then
                      (case out of
                         Undecodable msg \<Rightarrow>
                           upscale_exception i temp_directory verbose (Some cmd) msg s3
                       | Text t \<Rightarrow>
                           (case err of
                              Undecodable msg \<Rightarrow>
                                upscale_exception i temp_directory verbose (Some cmd) msg
                                  (snd (print t s3))
                            | Text u \<Rightarrow> seq (print t) (print u) s3))
                    else (Return (), s3)))"

text \<open>
  The pool during dispatch: the frames still in the queue, the tasks that have
  started and whose worker is not free yet, each with the command it waits for, and
  the state of the process. An event of the schedule is either \<open>Start\<close>, a free
  worker taking the first task of the queue and running it up to the launch of its
  resizer, or \<open>Finish i\<close>, the resizer of frame \<open>i\<close> ending and its task running to
  its end, which frees the worker. A step that the pool cannot take (no free
  worker, nothing queued, or no such task in flight) gives \<open>None\<close>. A schedule is
  a sequence of whole steps: what two tasks do inside one step each, such as two
  handlers calling \<^verbatim>\<open>cleanup\<close> at once, is not interleaved.
\<close>

datatype pool_event = Start | Finish nat

record pool =
  pending :: "nat list"
  in_flight :: "(nat \<times> string list option) list"
  pstate :: state

definition pool_step ::
  "nat \<Rightarrow> 'f world \<Rightarrow> path \<Rightarrow> string \<Rightarrow> 'f \<Rightarrow> string \<Rightarrow> string \<Rightarrow> int \<times> int \<Rightarrow> bool
     \<Rightarrow> pool_event \<Rightarrow> pool \<Rightarrow> pool option" where
  "pool_step max_workers w temp_directory imageresizer_path scale_factor magnification_factor
       algorithm original_resolution verbose ev p =
     (case ev of
        Start \<Rightarrow>
          (case pending p of
             [] \<Rightarrow> None
           | i # rest \<Rightarrow>
               if length (in_flight p) < max_workers then
                 (let r = upscale_frame_start w i temp_directory imageresizer_path scale_factor
                            magnification_factor algorithm original_resolution verbose (pstate p)
                  in Some (p\<lparr>pending := rest, in_flight := in_flight p @ [(i, fst r)],
                              pstate := snd r\<rparr>))
               else None)
      | Finish i \<Rightarrow>
          (case map_of (in_flight p) i of
             None \<Rightarrow> None
           | Some waiting \<Rightarrow>
               Some (p\<lparr>in_flight := filter (\<lambda>t. fst t \<noteq> i) (in_flight p),
                       pstate := (case waiting of
                                    None \<Rightarrow> pstate p
                                  | Some cmd \<Rightarrow>
                                      upscale_frame_end w i temp_directory verbose cmd (pstate p))\<rparr>)))"

fun pool_run :: "(pool_event \<Rightarrow> pool \<Rightarrow> pool option) \<Rightarrow> pool_event list \<Rightarrow> pool \<Rightarrow> pool option" where
  "pool_run step [] p = Some p"
| "pool_run step (ev # evs) p =
     (case step ev p of None \<Rightarrow> None | Some p' \<Rightarrow> pool_run step evs p')"

text \<open>
  \<^verbatim>\<open>upscale_frames\<close> under a schedule: every frame is queued, and the events of the
  schedule are taken in turn. The \<^verbatim>\<open>with\<close> block of line 107 is left when nothing is
  queued and nothing is in flight; a shorter schedule gives the pool at a moment of
  the dispatch.
\<close>

definition upscale_frames_pool ::
  "nat \<Rightarrow> pool_event list \<Rightarrow> 'f world \<Rightarrow> path \<Rightarrow> nat \<Rightarrow> string \<Rightarrow> 'f \<Rightarrow> string \<Rightarrow> string
     \<Rightarrow> int \<times> int \<Rightarrow> bool \<Rightarrow> state \<Rightarrow> pool option" where
  "upscale_frames_pool max_workers schedule w temp_directory total_frames imageresizer_path
       scale_factor magnification_factor algorithm original_resolution verbose s =
     pool_run (pool_step max_workers w temp_directory imageresizer_path scale_factor
                 magnification_factor algorithm original_resolution verbose)
       schedule \<lparr>pending = [0..<total_frames], in_flight = [], pstate = s\<rparr>"

section \<open>Completeness check and reassembly (main.py lines 113-156)\<close>

definition get_missing_frames :: "nat \<Rightarrow> path \<Rightarrow> state \<Rightarrow> nat list" where
  "get_missing_frames total_frames temp_directory s =
     [i \<leftarrow> [0..<total_frames]. \<not> exists (up_frame temp_directory i) s]"

definition default_ffmpeg_args :: "string list" where
  "default_ffmpeg_args =
     [''-c:v'', ''libx264'', ''-preset'', ''medium'', ''-tune'', ''animation'', ''-crf'', ''15'',
      ''-pix_fmt'', ''yuv420p'', ''-c:a'', ''aac'', ''-b:a'', ''128k'', ''-shortest'']"

definition ffmpeg_cmd_of :: "'f world \<Rightarrow> 'f \<Rightarrow> path \<Rightarrow> path \<Rightarrow> string \<Rightarrow> path \<Rightarrow> string list" where
  "ffmpeg_cmd_of w fps frame_path_list input_video ffmpeg_args output_name =
     [''ffmpeg'', ''-r'', str_float w fps, ''-i'', frame_path_list, ''-i'', input_video,
      ''-map'', ''0:v'', ''-map'', ''1:a'']
     @ (if ffmpeg_args \<noteq> [] then split_sp ffmpeg_args else default_ffmpeg_args)
     @ [output_name]"

text \<open>The two handlers of \<^verbatim>\<open>encode_video\<close>; both return normally.\<close>

definition encode_called_process_error :: "bool \<Rightarrow> string list \<Rightarrow> int \<Rightarrow> stream \<Rightarrow> unit py" where
  "encode_called_process_error verbose ffmpeg_cmd returncode err =
     seq (print (''Error: Encoding video failed with exit code '' @ str_int returncode @ ''.''))
         (if verbose then
            seq (print (''Command: '' @ join_sp ffmpeg_cmd))
                (case err of
                   Text t \<Rightarrow> print (''Output: '' @ t)
                 | Undecodable msg \<Rightarrow> raise (UnicodeDecodeError msg))
          else return_unit)"

definition encode_exception :: "bool \<Rightarrow> string list \<Rightarrow> string \<Rightarrow> unit py" where
  "encode_exception verbose ffmpeg_cmd msg =
     seq (print (''Unexpected error occurred during video encoding: '' @ msg))
         (if verbose then print (''Command: '' @ join_sp ffmpeg_cmd) else return_unit)"

definition missing_message :: "nat list \<Rightarrow> string" where
  "missing_message missing_frames =
     (if length missing_frames > 10 then
        ''Missing upscaled frames: from '' @ str_nat (hd missing_frames) @ '' to ''
        @ str_nat (last missing_frames)
      else ''Missing upscaled frames: '' @ str_nat_list missing_frames)"

definition encode_video ::
  "'f world \<Rightarrow> path \<Rightarrow> path \<Rightarrow> path \<Rightarrow> nat \<Rightarrow> string \<Rightarrow> bool \<Rightarrow> unit py" where
  "encode_video w input_video output_name temp_directory total_frames ffmpeg_args verbose s =
     (case get_fps w input_video s of
        (Raise e, s0) \<Rightarrow> (Raise e, s0)
      | (Return fps, s0) \<Rightarrow>
     (let frame_path_list = path_join temp_directory ''frame_%05d_up.png'';
          missing_frames = get_missing_frames total_frames temp_directory s0
      in if missing_frames \<noteq> [] then
           seq (print (missing_message missing_frames))
          (seq (cleanup temp_directory) (raise (SystemExit 1))) s0
         else
     (let s1 = (if ffmpeg_args \<noteq> [] then s0
                else snd (print ''Falling back to the default ffmpeg arguments.'' s0));
          ffmpeg_cmd = ffmpeg_cmd_of w fps frame_path_list input_video ffmpeg_args output_name
      in if verbose then
           (let s2 = spawn ffmpeg_cmd PIPE (snd (print (''Running command: '' @ join_sp ffmpeg_cmd) s1))
            in case subprocess_run w ffmpeg_cmd of
                 Fault msg \<Rightarrow> encode_exception verbose ffmpeg_cmd msg s2
               | Exited returncode out err \<Rightarrow>
                   if returncode \<noteq> 0 then
                     encode_called_process_error verbose ffmpeg_cmd returncode err s2
                   else
                     (let s3 = s2\<lparr>files := insert output_name (files s2)\<rparr>
                      in case out of
                           Undecodable msg \<Rightarrow> encode_exception verbose ffmpeg_cmd msg s3
                         | Text t \<Rightarrow>
                             (case err of
                                Undecodable msg \<Rightarrow>
                                  encode_exception verbose ffmpeg_cmd msg (snd (print t s3))
                              | Text u \<Rightarrow> seq (print t) (print u) s3)))
         else
           (let s2 = spawn ffmpeg_cmd DEVNULL s1
            in case subprocess_run w ffmpeg_cmd of
                 Fault msg \<Rightarrow> encode_exception verbose ffmpeg_cmd msg s2
               | Exited returncode out err \<Rightarrow>
                   if returncode \<noteq> 0 then
                     encode_called_process_error verbose ffmpeg_cmd returncode err s2
                   else (Return (), s2\<lparr>files := insert output_name (files s2)\<rparr>)))))"

section \<open>Output name (main.py lines 158-166 and 195)\<close>

text \<open>
  The loop of \<^verbatim>\<open>no_overwrite\<close> runs as long as the candidate exists, so it is a
  partial function: \<open>None\<close> is the loop that never ends.
\<close>

partial_function (option) no_overwrite_loop ::
  "state \<Rightarrow> string \<Rightarrow> string \<Rightarrow> path \<Rightarrow> nat \<Rightarrow> path option" where
  "no_overwrite_loop s filename file_extension out_filename counter =
     (if exists out_filename s then
        no_overwrite_loop s filename file_extension
          (filename @ ''('' @ str_nat counter @ '')'' @ file_extension) (Suc counter)
      else Some out_filename)"

declare no_overwrite_loop.simps [code]

definition no_overwrite :: "state \<Rightarrow> path \<Rightarrow> path option" where
  "no_overwrite s out_filename =
     no_overwrite_loop s (fst (splitext out_filename)) (snd (splitext out_filename)) out_filename 1"

definition derived_name :: "path \<Rightarrow> config \<Rightarrow> path" where
  "derived_name input cfg =
     fst (splitext input) @ ''_upscaled_'' @ cfg_upscaler_algorithm cfg
     @ cfg_upscaler_magnification_factor cfg @ ''x.'' @ cfg_output_container cfg"

section \<open>The script (main.py lines 168-200)\<close>

definition temp_dir :: path where
  "temp_dir = ''.temp_frames''"

text \<open>\<^verbatim>\<open>os.makedirs(temp_dir, exist_ok=True)\<close> for a one-component relative path.\<close>

definition makedirs :: "path \<Rightarrow> unit py" where
  "makedirs d s =
     (if d \<in> dirs s then (Return (), s)
      else if d \<in> files s then (Raise FileExistsError, s)
      else (Return (), s\<lparr>dirs := insert d (dirs s)\<rparr>))"

text \<open>
  The body of the script after argument and configuration parsing: \<open>input\<close> and
  \<open>verbose\<close> are the parsed arguments, \<open>cfg\<close> the parsed configuration, which is
  taken to have every key the script reads. The result is \<open>None\<close> when the loop of
  \<^verbatim>\<open>no_overwrite\<close> does not end.
\<close>

definition main :: "'f world \<Rightarrow> config \<Rightarrow> path \<Rightarrow> bool \<Rightarrow> state \<Rightarrow> (unit res \<times> state) option" where
  "main w cfg input verbose s =
     (case seq (check_dependencies w cfg)
          (seq (makedirs temp_dir)
          (seq (print ''Extracting frames...'')
               (extract_frames w input temp_dir))) s of
        (Raise e, s1) \<Rightarrow> Some (Raise e, s1)
      | (Return total_frames, s1) \<Rightarrow>
     (case float_of_str w (cfg_output_scale_factor cfg) of
        Inl msg \<Rightarrow> Some (Raise (ValueError msg), s1)
      | Inr x \<Rightarrow>
     (let scale_factor = float_div100 w x;
          magnification_factor = cfg_upscaler_magnification_factor cfg;
          algorithm = cfg_upscaler_algorithm cfg;
          original_dimensions = get_resolution w input;
          s2 = snd (upscale_frames w temp_dir total_frames (cfg_imageresizer_path cfg) scale_factor
                      magnification_factor algorithm original_dimensions verbose s1)
      in case no_overwrite s2 (derived_name input cfg) of
           None \<Rightarrow> None
         | Some out_filename \<Rightarrow>
             Some (seq (encode_video w input out_filename temp_dir total_frames (cfg_ffmpeg_args cfg)
                          verbose)
                       (cleanup temp_dir) s2))))"

section \<open>Interruption (main.py lines 14-20)\<close>

text \<open>
  The handler runs in the main thread. It reads the global \<^verbatim>\<open>temp_dir\<close>, which is
  bound only from line 183 on: \<open>None\<close> is the handler called before that. The
  handler is one step: it is the handler where nothing else adds to the staging
  directory or removes from it between the scan, the removals and the \<^verbatim>\<open>rmdir\<close> of
  its \<^verbatim>\<open>cleanup\<close>.
\<close>

definition signal_handler :: "path option \<Rightarrow> unit py" where
  "signal_handler global_temp_dir s =
     seq (print ''Ctrl+C received, cleaning up...'')
         (case global_temp_dir of
            None \<Rightarrow> raise NameError
          | Some d \<Rightarrow> seq (cleanup d) (raise (SystemExit 0)))
         (s\<lparr>exit_event := True\<rparr>)"

section \<open>Observations on a trace\<close>

text \<open>The external commands of a trace, in the order in which they were run.\<close>

fun spawned :: "event list \<Rightarrow> string list list" where
  "spawned [] = []"
| "spawned (Spawn cmd c # es) = cmd # spawned es"
| "spawned (Print x # es) = spawned es"

text \<open>\<open>infix_of xs ys\<close>: the list \<open>xs\<close> occurs in \<open>ys\<close> as a run of consecutive elements.\<close>

fun infix_of :: "'a list \<Rightarrow> 'a list \<Rightarrow> bool" where
  "infix_of xs [] = (xs = [])"
| "infix_of xs (y # ys) = (take (length xs) (y # ys) = xs \<or> infix_of xs ys)"

text \<open>The value of a string of decimal digits, the inverse of \<open>str_nat\<close>.\<close>

definition digits_value :: "string \<Rightarrow> nat" where
  "digits_value ds = foldl (\<lambda>a c. 10 * a + (of_char c - 48)) 0 ds"

text \<open>The \<open>k\<close>-th candidate of \<^verbatim>\<open>no_overwrite\<close> for a file name.\<close>

definition candidate :: "path \<Rightarrow> nat \<Rightarrow> path" where
  "candidate out_filename k =
     fst (splitext out_filename) @ ''('' @ str_nat k @ '')'' @ snd (splitext out_filename)"

section \<open>A concrete world for evaluation\<close>

text \<open>
  To run the model on concrete inputs, floats are replaced by exact hundredths:
  the integer \<open>x\<close> stands for the number \<open>x / 100\<close>. The strings accepted by
  \<open>centi_of_str\<close> are the unsigned decimal integers, which is all the examples use.
  The world \<open>demo_world n ok sp\<close> decodes \<open>n\<close> frames of 640 by 360 at rate 30 from any
  path, writes the frame files for which \<open>ok\<close> holds, and answers every external
  command by \<open>sp\<close>.
\<close>

fun nat_of_digits :: "string \<Rightarrow> nat \<Rightarrow> nat option" where
  "nat_of_digits [] acc = Some acc"
| "nat_of_digits (c # cs) acc =
     (if c \<in> set ''0123456789'' then nat_of_digits cs (10 * acc + (of_char c - 48)) else None)"

definition centi_of_str :: "string \<Rightarrow> string + int" where
  "centi_of_str s =
     (case (if s = [] then None else nat_of_digits s 0) of
        None \<Rightarrow> Inl (''could not convert string to float: '' @ [CHR 0x27] @ s @ [CHR 0x27])
      | Some n \<Rightarrow> Inr (100 * int n))"

definition str_centi :: "int \<Rightarrow> string" where
  "str_centi x =
     str_int (x div 100) @ ''.'' @
     (if x mod 10 = 0 then str_nat (nat (x mod 100 div 10))
      else str_nat (nat (x mod 100 div 10)) @ str_nat (nat (x mod 10)))"

definition demo_world :: "nat \<Rightarrow> (path \<Rightarrow> bool) \<Rightarrow> (string list \<Rightarrow> proc_result) \<Rightarrow> int world" where
  "demo_world n ok sp =
     \<lparr>float_of_str = centi_of_str,
      float_div100 = (\<lambda>x. x div 100),
      int_times_float = (\<lambda>n x. n * x),
      int_of_float = (\<lambda>x. Inr (if 0 \<le> x then x div 100 else - ((- x) div 100))),
      float_ne = (\<lambda>x y. x \<noteq> y),
      str_float = str_centi,
      access_x_ok = (\<lambda>p. True),
      which = (\<lambda>p. True),
      cv2_frames = (\<lambda>p. n),
      cv2_fps = (\<lambda>p. 3000),
      cv2_size = (\<lambda>p. (640, 360)),
      cv2_imwrite = ok,
      subprocess_run = sp\<rparr>"

definition demo_config :: "string \<Rightarrow> string \<Rightarrow> config" where
  "demo_config scale magnification =
     \<lparr>cfg_imageresizer_path = ''ImageResizer.exe'',
      cfg_output_scale_factor = scale,
      cfg_output_container = ''mp4'',
      cfg_upscaler_magnification_factor = magnification,
      cfg_upscaler_algorithm = ''XBR'',
      cfg_ffmpeg_args = []\<rparr>"

text \<open>A working directory with the resizer and one video, before a run.\<close>

definition demo_state :: state where
  "demo_state =
     \<lparr>files = {''ImageResizer.exe'', ''clip.mkv''}, dirs = {}, exit_event = False, trace = []\<rparr>"

text \<open>The same directory after two frames have been extracted into the staging area.\<close>

definition staged_state :: state where
  "staged_state =
     \<lparr>files = {''ImageResizer.exe'', ''clip.mkv'',
               ''.temp_frames/frame_00000.png'', ''.temp_frames/frame_00001.png''},
      dirs = {''.temp_frames''}, exit_event = False, trace = []\<rparr>"

text \<open>External programs that always succeed silently, and a resizer failing on frame 0.\<close>

definition all_succeed :: "string list \<Rightarrow> proc_result" where
  "all_succeed cmd = Exited 0 (Text []) (Text [])"

definition fail_frame0 :: "string list \<Rightarrow> proc_result" where
  "fail_frame0 cmd =
     (if cmd ! 2 = ''.temp_frames/frame_00000.png'' then Exited 3 (Text []) (Text ''load failed'')
      else Exited 0 (Text []) (Text []))"


text \<open>A resizer whose standard output is not valid UTF-8, exiting with status 0.\<close>

definition garbled_output :: "string list \<Rightarrow> proc_result" where
  "garbled_output cmd =
     (if hd cmd = ''ffmpeg'' then Exited 0 (Text []) (Text [])
      else Exited 0 (Undecodable ''invalid start byte'') (Text []))"

text \<open>The working directory after two earlier runs on the same video.\<close>

definition rerun_state :: state where
  "rerun_state =
     \<lparr>files = {''ImageResizer.exe'', ''clip.mkv'', ''clip_upscaled_XBR2x.mp4'',
               ''clip_upscaled_XBR2x(1).mp4''},
      dirs = {}, exit_event = False, trace = []\<rparr>"

text \<open>The directory after six frames have been extracted, at the start of dispatch.\<close>

definition staged_six :: state where
  "staged_six =
     \<lparr>files = {''ImageResizer.exe'', ''clip.mkv'',
               ''.temp_frames/frame_00000.png'', ''.temp_frames/frame_00001.png'',
               ''.temp_frames/frame_00002.png'', ''.temp_frames/frame_00003.png'',
               ''.temp_frames/frame_00004.png'', ''.temp_frames/frame_00005.png''},
      dirs = {''.temp_frames''}, exit_event = False, trace = []\<rparr>"

section \<open>An invariant of the staging area\<close>

text \<open>
  \<open>outside d s\<close> are the files that are not entries of the directory \<open>d\<close>.
  \<open>staging_ok d F s\<close> holds when the staging directory \<open>d\<close> has no subdirectory,
  the files outside it are exactly \<open>F\<close>, and its entries exist only while the
  directory itself exists.
\<close>

definition outside :: "path \<Rightarrow> state \<Rightarrow> path set" where
  "outside d s = {p \<in> files s. \<not> is_child d p}"

definition staging_ok :: "path \<Rightarrow> path set \<Rightarrow> state \<Rightarrow> bool" where
  "staging_ok d F s =
     (children d (dirs s) = {} \<and> outside d s = F \<and> (d \<in> dirs s \<or> children d (files s) = {}))"

section \<open>Basic facts\<close>

lemma seq_Return: "m s = (Return a, s') \<Longrightarrow> seq m k s = k s'"
  by (simp add: seq_def)

lemma seq_Raise: "m s = (Raise e, s') \<Longrightarrow> seq m k s = (Raise e, s')"
  by (simp add: seq_def)



subsection \<open>cleanup\<close>

lemma cleanup_existing:
  assumes "d \<in> dirs s" and "children d (dirs s) = {}"
  shows "cleanup d s = (Return (), s\<lparr>files := files s - children d (files s), dirs := dirs s - {d}\<rparr>)"
  using assms by (simp add: cleanup_def)

lemma cleanup_missing:
  assumes "d \<notin> dirs s" and "d \<notin> files s"
  shows "cleanup d s = (Raise FileNotFoundError, s)"
  using assms by (simp add: cleanup_def)

lemma children_Diff_self: "children d (S - children d S) = {}"
  by (auto simp: children_def)

section \<open>Releasing the staging area\<close>

text \<open>
  Claim C8, as amended. \<^verbatim>\<open>cleanup\<close> of an existing directory that holds only regular
  files returns, removes the directory and every entry in it, and changes nothing
  else: the other files and directories, the trace and the cancellation flag are as
  before. It cannot be repeated: a second call, on the directory that is now gone,
  raises \<^verbatim>\<open>FileNotFoundError\<close> and leaves the state as it is.
\<close>

theorem cleanup_release:
  assumes "d \<in> dirs s" and "children d (dirs s) = {}" and "d \<notin> files s"
  shows "\<exists>s'. cleanup d s = (Return (), s')
           \<and> d \<notin> dirs s' \<and> children d (files s') = {}
           \<and> files s' = files s - children d (files s)
           \<and> dirs s' = dirs s - {d}
           \<and> trace s' = trace s \<and> exit_event s' = exit_event s
           \<and> cleanup d s' = (Raise FileNotFoundError, s')"
proof -
  let ?s' = "s\<lparr>files := files s - children d (files s), dirs := dirs s - {d}\<rparr>"
  have first: "cleanup d s = (Return (), ?s')"
    using assms(1,2) by (rule cleanup_existing)
  have "d \<notin> dirs ?s'" and "d \<notin> files ?s'"
    using assms(3) by simp_all
  then have second: "cleanup d ?s' = (Raise FileNotFoundError, ?s')"
    by (rule cleanup_missing)
  show ?thesis
    using first second by (simp add: children_Diff_self)
qed

theorem cleanup_release_witness:
  "temp_dir \<in> dirs staged_state \<and> children temp_dir (dirs staged_state) = {}
   \<and> temp_dir \<notin> files staged_state
   \<and> (\<exists>s'. cleanup temp_dir staged_state = (Return (), s')
         \<and> temp_dir \<notin> dirs s' \<and> children temp_dir (files s') = {}
         \<and> cleanup temp_dir s' = (Raise FileNotFoundError, s'))"
proof -
  have 1: "temp_dir \<in> dirs staged_state"
    by (simp add: temp_dir_def staged_state_def)
  have 2: "children temp_dir (dirs staged_state) = {}"
    by (simp add: temp_dir_def staged_state_def children_def is_child_def)
  have 3: "temp_dir \<notin> files staged_state"
    by (simp add: temp_dir_def staged_state_def)
  from cleanup_release [OF 1 2 3] 1 2 3 show ?thesis by blast
qed

text \<open>
  Claim C8 as stated fails: on the staging directory with two extracted frames the
  first \<^verbatim>\<open>cleanup\<close> returns and the second one raises.
\<close>

theorem cleanup_twice_counterexample:
  "fst (cleanup temp_dir staged_state) = Return ()
   \<and> fst (cleanup temp_dir (snd (cleanup temp_dir staged_state))) = Raise FileNotFoundError"
  by (simp add: cleanup_def temp_dir_def staged_state_def children_def is_child_def)

lemma cleanup_cases:
  obtains (removed) "d \<in> dirs s" "children d (dirs s) = {}"
      "cleanup d s = (Return (), s\<lparr>files := files s - children d (files s), dirs := dirs s - {d}\<rparr>)"
    | (raised) e where "cleanup d s = (Raise e, s)" "exit_status (Raise e :: unit res) = 1"
  by (cases "d \<in> dirs s"; cases "children d (dirs s) = {}"; cases "d \<in> files s")
     (simp_all add: cleanup_def)

subsection \<open>Traces\<close>

lemma spawned_append: "spawned (xs @ ys) = spawned xs @ spawned ys"
  by (induction xs rule: spawned.induct) simp_all

subsection \<open>The concrete states\<close>

lemma fmt05_0: "fmt05 0 = ''00000''"
  by (simp add: fmt05_def str_nat.simps digit_char_def numeral_eq_Suc)

lemma fmt05_1: "fmt05 1 = ''00001''"
  by (simp add: fmt05_def str_nat.simps digit_char_def numeral_eq_Suc)

lemma demo_frames:
  "raw_frame temp_dir 0 = ''.temp_frames/frame_00000.png''"
  "raw_frame temp_dir (Suc 0) = ''.temp_frames/frame_00001.png''"
  "up_frame temp_dir 0 = ''.temp_frames/frame_00000_up.png''"
  "up_frame temp_dir (Suc 0) = ''.temp_frames/frame_00001_up.png''"
  using fmt05_1 by (simp_all add: raw_frame_def up_frame_def path_join_def temp_dir_def fmt05_0)

lemma upt_0_2: "[0..<2] = [0, Suc 0]"
  by (simp add: upt_rec)

lemma staged_state_missing: "get_missing_frames 2 temp_dir staged_state = [0, Suc 0]"
  by (simp add: get_missing_frames_def exists_def demo_frames upt_0_2 staged_state_def)

lemma staged_state_dir:
  "temp_dir \<in> dirs staged_state" "children temp_dir (dirs staged_state) = {}"
  "temp_dir \<notin> files staged_state" "isfile ''clip.mkv'' staged_state"
  by (simp_all add: temp_dir_def staged_state_def children_def is_child_def isfile_def)

section \<open>Completeness check\<close>

lemma get_missing_frames_sorted: "sorted_wrt (<) (get_missing_frames n d s)"
  unfolding get_missing_frames_def by (rule sorted_wrt_filter) simp

lemma get_missing_frames_set:
  "set (get_missing_frames n d s) = {i. i < n \<and> \<not> exists (up_frame d i) s}"
  by (auto simp: get_missing_frames_def)

lemma get_missing_frames_empty:
  "get_missing_frames n d s = [] \<longleftrightarrow> (\<forall>i<n. exists (up_frame d i) s)"
  by (auto simp: get_missing_frames_def filter_empty_conv)

lemma encode_video_missing:
  assumes "isfile input s" and "get_missing_frames n d s \<noteq> []"
  shows "encode_video w input out d n args verbose s =
           seq (cleanup d) (raise (SystemExit 1))
             (s\<lparr>trace := trace s @ [Print (missing_message (get_missing_frames n d s))]\<rparr>)"
  using assms by (simp add: encode_video_def get_fps_def Let_def seq_def print_def)

lemma encode_video_missing_fatal:
  assumes "isfile input s" and "get_missing_frames n d s \<noteq> []"
  shows "exit_status (fst (encode_video w input out d n args verbose s)) = 1
         \<and> spawned (trace (snd (encode_video w input out d n args verbose s))) = spawned (trace s)
         \<and> files (snd (encode_video w input out d n args verbose s)) \<subseteq> files s"
proof -
  let ?s1 = "s\<lparr>trace := trace s @ [Print (missing_message (get_missing_frames n d s))]\<rparr>"
  have e: "encode_video w input out d n args verbose s = seq (cleanup d) (raise (SystemExit 1)) ?s1"
    using assms by (rule encode_video_missing)
  show ?thesis
  proof (cases d ?s1 rule: cleanup_cases)
    case removed
    then show ?thesis
      by (auto simp: e seq_def raise_def spawned_append)
  next
    case (raised x)
    then show ?thesis
      by (simp add: e seq_def spawned_append)
  qed
qed

lemma encode_video_missing_released:
  assumes "isfile input s" and "get_missing_frames n d s \<noteq> []"
    and "d \<in> dirs s" and "children d (dirs s) = {}"
  shows "d \<notin> dirs (snd (encode_video w input out d n args verbose s))
         \<and> children d (files (snd (encode_video w input out d n args verbose s))) = {}"
proof -
  let ?s1 = "s\<lparr>trace := trace s @ [Print (missing_message (get_missing_frames n d s))]\<rparr>"
  have e: "encode_video w input out d n args verbose s = seq (cleanup d) (raise (SystemExit 1)) ?s1"
    using assms(1,2) by (rule encode_video_missing)
  have "cleanup d ?s1 = (Return (), ?s1\<lparr>files := files ?s1 - children d (files ?s1), dirs := dirs ?s1 - {d}\<rparr>)"
    using assms(3,4) by (intro cleanup_existing) simp_all
  then show ?thesis
    by (simp add: e seq_def raise_def children_Diff_self)
qed

text \<open>
  Claim C5. \<^verbatim>\<open>get_missing_frames\<close> only reads the state (it returns a list and no
  state). Its result is strictly ascending and holds exactly the indices below the
  frame count whose upscaled file does not exist, so it is empty exactly when every
  expected upscaled frame exists. When \<^verbatim>\<open>encode_video\<close> finds it non-empty (having
  passed the probe of the input file that precedes the check), the run is fatal:
  the result carries exit status 1, no command is run and no file is created; and
  where the staging directory exists and holds only files, it is gone afterwards
  with everything in it.
\<close>

theorem get_missing_frames_spec:
  "sorted_wrt (<) (get_missing_frames n d s)
   \<and> set (get_missing_frames n d s) = {i. i < n \<and> \<not> exists (up_frame d i) s}
   \<and> (get_missing_frames n d s = [] \<longleftrightarrow> (\<forall>i<n. exists (up_frame d i) s))
   \<and> (isfile input s \<and> get_missing_frames n d s \<noteq> [] \<longrightarrow>
        exit_status (fst (encode_video w input out d n args verbose s)) = 1
        \<and> spawned (trace (snd (encode_video w input out d n args verbose s))) = spawned (trace s)
        \<and> files (snd (encode_video w input out d n args verbose s)) \<subseteq> files s)
   \<and> (isfile input s \<and> get_missing_frames n d s \<noteq> [] \<and> d \<in> dirs s \<and> children d (dirs s) = {} \<longrightarrow>
        d \<notin> dirs (snd (encode_video w input out d n args verbose s))
        \<and> children d (files (snd (encode_video w input out d n args verbose s))) = {})"
  using get_missing_frames_sorted get_missing_frames_set get_missing_frames_empty
    encode_video_missing_fatal [of input s n d w out args verbose]
    encode_video_missing_released [of input s n d w out args verbose]
  by simp

theorem get_missing_frames_spec_witness:
  "isfile ''clip.mkv'' staged_state
   \<and> get_missing_frames 2 temp_dir staged_state = [0, Suc 0]
   \<and> temp_dir \<in> dirs staged_state \<and> children temp_dir (dirs staged_state) = {}
   \<and> exit_status (fst (encode_video (demo_world 2 (\<lambda>p. True) all_succeed) ''clip.mkv''
         ''clip_upscaled_XBR2x.mp4'' temp_dir 2 [] False staged_state)) = 1
   \<and> spawned (trace (snd (encode_video (demo_world 2 (\<lambda>p. True) all_succeed) ''clip.mkv''
         ''clip_upscaled_XBR2x.mp4'' temp_dir 2 [] False staged_state))) = spawned (trace staged_state)
   \<and> temp_dir \<notin> dirs (snd (encode_video (demo_world 2 (\<lambda>p. True) all_succeed) ''clip.mkv''
         ''clip_upscaled_XBR2x.mp4'' temp_dir 2 [] False staged_state))
   \<and> children temp_dir (files (snd (encode_video (demo_world 2 (\<lambda>p. True) all_succeed) ''clip.mkv''
         ''clip_upscaled_XBR2x.mp4'' temp_dir 2 [] False staged_state))) = {}"
  using get_missing_frames_spec [of 2 temp_dir staged_state "''clip.mkv''"
      "demo_world 2 (\<lambda>p. True) all_succeed" "''clip_upscaled_XBR2x.mp4''" "[]" False]
    staged_state_missing staged_state_dir
  by simp

subsection \<open>Decimal strings\<close>

lemma digit_char_code: "d < 10 \<Longrightarrow> of_char (digit_char d) = (48 + d :: nat)"
proof -
  assume "d < 10"
  then consider "d = 0" | "d = 1" | "d = 2" | "d = 3" | "d = 4" | "d = 5" | "d = 6" | "d = 7"
    | "d = 8" | "d = 9"
    by atomize_elim arith
  then show ?thesis
    by cases (simp_all add: digit_char_def)
qed

lemma str_nat_codes:
  "c \<in> set (str_nat n) \<Longrightarrow> 48 \<le> (of_char c :: nat) \<and> (of_char c :: nat) < 58"
proof (induction n rule: str_nat.induct)
  case (1 n)
  show ?case
  proof (cases "n < 10")
    case True
    then have "str_nat n = [digit_char n]"
      by (subst str_nat.simps) simp
    with 1(2) True show ?thesis
      by (simp add: digit_char_code)
  next
    case False
    then have e: "str_nat n = str_nat (n div 10) @ [digit_char (n mod 10)]"
      by (subst str_nat.simps) simp
    have "n mod 10 < 10" by simp
    then have "of_char (digit_char (n mod 10)) = (48 + n mod 10 :: nat)"
      by (rule digit_char_code)
    with 1 False e show ?thesis
      by auto
  qed
qed

lemma str_nat_nonempty: "str_nat n \<noteq> []"
  by (subst str_nat.simps) simp

lemma str_int_nonempty: "str_int i \<noteq> []"
  by (simp add: str_int_def str_nat_nonempty)

lemma str_int_codes:
  "c \<in> set (str_int i) \<Longrightarrow> (of_char c :: nat) = 45 \<or> (48 \<le> (of_char c :: nat) \<and> (of_char c :: nat) < 58)"
  using str_nat_codes [of c "nat i"] str_nat_codes [of c "nat (- i)"]
  by (auto simp: str_int_def split: if_splits)

section \<open>The command of an upscale task\<close>

lemma cleanup_traceD: "cleanup d s = (r, s') \<Longrightarrow> trace s' = trace s"
  by (auto simp: cleanup_def split: if_splits)

lemma trace_write_file: "trace (write_file d p s) = trace s"
  by (simp add: write_file_def)

lemma spawned_upscale_called_process_error:
  "spawned (trace (snd (upscale_called_process_error i d v cmd rc out s))) = spawned (trace s)"
  by (auto simp: upscale_called_process_error_def seq_def print_def raise_def return_unit_def
      spawned_append split: stream.splits prod.splits res.splits dest!: cleanup_traceD)

lemma spawned_upscale_exception:
  "spawned (trace (snd (upscale_exception i d v cmd msg s))) = spawned (trace s)"
  by (auto simp: upscale_exception_def seq_def print_def raise_def return_unit_def
      spawned_append split: option.splits prod.splits res.splits dest!: cleanup_traceD)

text \<open>The command an upscale task runs, if it gets as far as building one.\<close>

lemma spawned_upscale_frame:
  "spawned (trace (snd (upscale_frame w i d irp sc mag alg res v s))) =
     spawned (trace s) @
     (case int_of_float w (int_times_float w (fst res) sc) of
        Inl e \<Rightarrow> []
      | Inr nw \<Rightarrow>
          (case int_of_float w (int_times_float w (snd res) sc) of
             Inl e \<Rightarrow> []
           | Inr nh \<Rightarrow>
               (case float_of_str w mag of
                  Inl msg \<Rightarrow> []
                | Inr m \<Rightarrow> [upscale_cmd w irp (raw_frame d i) (up_frame d i) sc mag m alg nw nh])))"
  by (simp add: upscale_frame_def Let_def spawn_def print_def seq_def
      spawned_upscale_exception spawned_upscale_called_process_error spawned_append trace_write_file
      split: sum.splits proc_result.splits stream.splits)

lemma path_join_last: "b \<noteq> [] \<Longrightarrow> last (path_join a b) = last b"
  by (simp add: path_join_def)

lemma frame_neq_Lanczos: "raw_frame d i \<noteq> ''Lanczos''"
proof
  assume "raw_frame d i = ''Lanczos''"
  then have "last (raw_frame d i) = CHR ''s''" by simp
  then show False by (simp add: raw_frame_def path_join_last)
qed

lemma algorithm_step_neq:
  "alg @ '' '' @ mag @ ''x'' \<noteq> ''Lanczos''" "alg @ '' '' @ mag @ ''x'' \<noteq> ''/resize''"
proof -
  have l: "last (alg @ '' '' @ mag @ ''x'') = CHR ''x''" by simp
  show "alg @ '' '' @ mag @ ''x'' \<noteq> ''Lanczos''"
  proof
    assume "alg @ '' '' @ mag @ ''x'' = ''Lanczos''"
    then have "last (alg @ '' '' @ mag @ ''x'') = CHR ''s''" by simp
    with l show False by simp
  qed
  show "alg @ '' '' @ mag @ ''x'' \<noteq> ''/resize''"
  proof
    assume "alg @ '' '' @ mag @ ''x'' = ''/resize''"
    then have "last (alg @ '' '' @ mag @ ''x'') = CHR ''e''" by simp
    with l show False by simp
  qed
qed

lemma infix_of_3_8:
  "infix_of [a, b, c] [x1, x2, x3, x4, x5, x6, x7, x8] \<longleftrightarrow>
     (x1 = a \<and> x2 = b \<and> x3 = c) \<or> (x2 = a \<and> x3 = b \<and> x4 = c) \<or> (x3 = a \<and> x4 = b \<and> x5 = c)
     \<or> (x4 = a \<and> x5 = b \<and> x6 = c) \<or> (x5 = a \<and> x6 = b \<and> x7 = c) \<or> (x6 = a \<and> x7 = b \<and> x8 = c)"
  by simp

lemma infix_of_3_11:
  "infix_of [a, b, c] [x1, x2, x3, x4, x5, x6, x7, x8, x9, x10, x11] \<longleftrightarrow>
     (x1 = a \<and> x2 = b \<and> x3 = c) \<or> (x2 = a \<and> x3 = b \<and> x4 = c) \<or> (x3 = a \<and> x4 = b \<and> x5 = c)
     \<or> (x4 = a \<and> x5 = b \<and> x6 = c) \<or> (x5 = a \<and> x6 = b \<and> x7 = c) \<or> (x6 = a \<and> x7 = b \<and> x8 = c)
     \<or> (x7 = a \<and> x8 = b \<and> x9 = c) \<or> (x8 = a \<and> x9 = b \<and> x10 = c) \<or> (x9 = a \<and> x10 = b \<and> x11 = c)"
  by simp


lemma upscale_cmd_shape:
  "upscale_cmd w irp inp outf sc mag m alg nw nh =
     [irp, ''/load'', inp, ''/resize'', ''auto'', alg @ '' '' @ mag @ ''x'']
     @ (if float_ne w sc m then [''/resize'', str_int nw @ ''x'' @ str_int nh, ''Lanczos''] else [])
     @ [''/save'', outf]"
  by (simp add: upscale_cmd_def)

lemma upscale_cmd_infix:
  "infix_of [''/resize'', a, ''Lanczos'']
     (upscale_cmd w irp (raw_frame d i) outf sc mag m alg nw nh)
   \<longleftrightarrow> float_ne w sc m \<and> a = str_int nw @ ''x'' @ str_int nh"
proof (cases "float_ne w sc m")
  case True
  then show ?thesis
    using frame_neq_Lanczos [of d i] algorithm_step_neq [of alg mag]
    by (simp add: upscale_cmd_def infix_of_3_11 eq_commute [of a] del: infix_of.simps)
next
  case False
  then show ?thesis
    using frame_neq_Lanczos [of d i] algorithm_step_neq [of alg mag]
    by (simp add: upscale_cmd_def infix_of_3_8 del: infix_of.simps)
qed

lemma demo_world_simps:
  "float_of_str (demo_world n ok sp) = centi_of_str"
  "float_div100 (demo_world n ok sp) = (\<lambda>x. x div 100)"
  "int_times_float (demo_world n ok sp) = (\<lambda>n x. n * x)"
  "int_of_float (demo_world n ok sp) = (\<lambda>x. Inr (if 0 \<le> x then x div 100 else - ((- x) div 100)))"
  "float_ne (demo_world n ok sp) = (\<lambda>x y. x \<noteq> y)"
  "str_float (demo_world n ok sp) = str_centi"
  "access_x_ok (demo_world n ok sp) = (\<lambda>p. True)"
  "which (demo_world n ok sp) = (\<lambda>p. True)"
  "cv2_frames (demo_world n ok sp) = (\<lambda>p. n)"
  "cv2_fps (demo_world n ok sp) = (\<lambda>p. 3000)"
  "cv2_size (demo_world n ok sp) = (\<lambda>p. (640, 360))"
  "cv2_imwrite (demo_world n ok sp) = ok"
  "subprocess_run (demo_world n ok sp) = sp"
  by (simp_all add: demo_world_def)

lemma centi_of_str_2: "centi_of_str ''2'' = Inr 200"
  by (simp add: centi_of_str_def)

lemma str_int_960_540: "str_int 960 = ''960''" "str_int 540 = ''540''"
  by (simp_all add: str_int_def str_nat.simps digit_char_def)

text \<open>
  Claim C4. Whenever an upscale task builds its command (the two target dimensions
  \<^verbatim>\<open>int(width * scale_factor)\<close> and \<^verbatim>\<open>int(height * scale_factor)\<close> and the float of
  the magnification factor are defined), it runs exactly one command, for every frame
  index and in either verbosity: the load step, the resize by the named algorithm at
  its native magnification, then the secondary resize to exactly the two truncated
  dimensions with the Lanczos filter if the scale factor differs from the native
  magnification and nothing if they are equal, and the save step. The command holds
  a \<^verbatim>\<open>/resize ... Lanczos\<close> step if and only if the two factors differ, and then
  only the one to the target dimensions.
\<close>

theorem upscale_frame_secondary_resize:
  assumes "int_of_float w (int_times_float w (fst res) sc) = Inr nw"
    and "int_of_float w (int_times_float w (snd res) sc) = Inr nh"
    and "float_of_str w mag = Inr m"
  shows "\<exists>cmd. spawned (trace (snd (upscale_frame w i d irp sc mag alg res v s))) = spawned (trace s) @ [cmd]
           \<and> cmd = [irp, ''/load'', raw_frame d i, ''/resize'', ''auto'', alg @ '' '' @ mag @ ''x'']
                   @ (if float_ne w sc m
                      then [''/resize'', str_int nw @ ''x'' @ str_int nh, ''Lanczos''] else [])
                   @ [''/save'', up_frame d i]
           \<and> (infix_of [''/resize'', str_int nw @ ''x'' @ str_int nh, ''Lanczos''] cmd
                \<longleftrightarrow> float_ne w sc m)
           \<and> (\<forall>a. infix_of [''/resize'', a, ''Lanczos''] cmd
                    \<longrightarrow> float_ne w sc m \<and> a = str_int nw @ ''x'' @ str_int nh)"
proof -
  let ?cmd = "upscale_cmd w irp (raw_frame d i) (up_frame d i) sc mag m alg nw nh"
  have "spawned (trace (snd (upscale_frame w i d irp sc mag alg res v s))) = spawned (trace s) @ [?cmd]"
    using assms by (simp add: spawned_upscale_frame)
  moreover have "?cmd = [irp, ''/load'', raw_frame d i, ''/resize'', ''auto'', alg @ '' '' @ mag @ ''x'']
                   @ (if float_ne w sc m
                      then [''/resize'', str_int nw @ ''x'' @ str_int nh, ''Lanczos''] else [])
                   @ [''/save'', up_frame d i]"
    by (rule upscale_cmd_shape)
  moreover have "infix_of [''/resize'', a, ''Lanczos''] ?cmd
      \<longleftrightarrow> float_ne w sc m \<and> a = str_int nw @ ''x'' @ str_int nh" for a
    by (rule upscale_cmd_infix)
  ultimately show ?thesis
    by blast
qed

theorem upscale_frame_secondary_resize_witness:
  "int_of_float (demo_world 2 (\<lambda>p. True) all_succeed)
     (int_times_float (demo_world 2 (\<lambda>p. True) all_succeed) (fst (640, 360)) 150) = Inr 960
   \<and> int_of_float (demo_world 2 (\<lambda>p. True) all_succeed)
     (int_times_float (demo_world 2 (\<lambda>p. True) all_succeed) (snd (640, 360)) 150) = Inr 540
   \<and> float_of_str (demo_world 2 (\<lambda>p. True) all_succeed) ''2'' = Inr 200
   \<and> float_ne (demo_world 2 (\<lambda>p. True) all_succeed) 150 200
   \<and> spawned (trace (snd (upscale_frame (demo_world 2 (\<lambda>p. True) all_succeed) 0 temp_dir
        ''ImageResizer.exe'' 150 ''2'' ''XBR'' (640, 360) False staged_state)))
      = [[''ImageResizer.exe'', ''/load'', ''.temp_frames/frame_00000.png'', ''/resize'', ''auto'',
          ''XBR 2x'', ''/resize'', ''960x540'', ''Lanczos'', ''/save'',
          ''.temp_frames/frame_00000_up.png'']]"
proof -
  let ?w = "demo_world 2 (\<lambda>p. True) all_succeed"
  have 1: "int_of_float ?w (int_times_float ?w (fst (640, 360)) 150) = Inr 960"
    by (simp add: demo_world_simps)
  have 2: "int_of_float ?w (int_times_float ?w (snd (640, 360)) 150) = Inr 540"
    by (simp add: demo_world_simps)
  have 3: "float_of_str ?w ''2'' = Inr 200"
    by (simp add: demo_world_simps centi_of_str_2)
  have 4: "float_ne ?w 150 200"
    by (simp add: demo_world_simps)
  have 5: "spawned (trace staged_state) = []"
    by (simp add: staged_state_def)
  from upscale_frame_secondary_resize [OF 1 2 3, of 0 temp_dir "''ImageResizer.exe''" "''XBR''" False staged_state]
  show ?thesis
    using 1 2 3 4 5 by (simp add: demo_frames str_int_960_540)
qed

section \<open>The output name\<close>

lemma digits_value_snoc: "digits_value (ds @ [c]) = 10 * digits_value ds + (of_char c - 48)"
  by (simp add: digits_value_def)

lemma digits_value_str_nat: "digits_value (str_nat n) = n"
proof (induction n rule: str_nat.induct)
  case (1 n)
  show ?case
  proof (cases "n < 10")
    case True
    then have "str_nat n = [digit_char n]"
      by (subst str_nat.simps) simp
    with True show ?thesis
      by (simp add: digits_value_def digit_char_code)
  next
    case False
    then have e: "str_nat n = str_nat (n div 10) @ [digit_char (n mod 10)]"
      by (subst str_nat.simps) simp
    have "of_char (digit_char (n mod 10)) = (48 + n mod 10 :: nat)"
      by (rule digit_char_code) simp
    with 1 False show ?thesis
      by (simp add: e digits_value_snoc)
  qed
qed

lemma str_nat_inj: "str_nat a = str_nat b \<Longrightarrow> a = b"
  by (metis digits_value_str_nat)

lemma candidate_inj: "candidate name a = candidate name b \<Longrightarrow> a = b"
  by (simp add: candidate_def str_nat_inj)

lemma no_overwrite_loop_step:
  "no_overwrite_loop s (fst (splitext name)) (snd (splitext name)) p c =
     (if exists p s
      then no_overwrite_loop s (fst (splitext name)) (snd (splitext name)) (candidate name c) (Suc c)
      else Some p)"
  by (subst no_overwrite_loop.simps) (simp add: candidate_def)

lemma no_overwrite_loop_finds:
  assumes "\<forall>j. c \<le> j \<and> j < k \<longrightarrow> exists (candidate name j) s"
    and "\<not> exists (candidate name k) s" and "c \<le> k"
  shows "no_overwrite_loop s (fst (splitext name)) (snd (splitext name)) (candidate name c) (Suc c)
         = Some (candidate name k)"
  using assms
proof (induction "k - c" arbitrary: c)
  case 0
  then have "c = k" by simp
  with 0 show ?case
    by (simp add: no_overwrite_loop_step)
next
  case (Suc d)
  then have "c < k" by simp
  with Suc.prems have ex: "exists (candidate name c) s" by simp
  have "no_overwrite_loop s (fst (splitext name)) (snd (splitext name)) (candidate name (Suc c)) (Suc (Suc c))
        = Some (candidate name k)"
    using Suc.hyps(2) Suc.prems \<open>c < k\<close> by (intro Suc.hyps(1)) auto
  with ex show ?case
    by (simp add: no_overwrite_loop_step [of s name "candidate name c"])
qed

lemma free_candidate:
  assumes "finite (files s \<union> dirs s)"
  shows "\<exists>k\<ge>c. \<not> exists (candidate name k) s"
proof (rule ccontr)
  assume "\<not> (\<exists>k\<ge>c. \<not> exists (candidate name k) s)"
  then have "candidate name ` {c..} \<subseteq> files s \<union> dirs s"
    by (auto simp: exists_def)
  then have "finite (candidate name ` {c..})"
    using assms by (rule finite_subset)
  moreover have "inj_on (candidate name) {c..}"
    by (rule inj_onI) (rule candidate_inj)
  ultimately have "finite {c..}"
    by (rule finite_imageD)
  then show False
    by (simp add: infinite_Ici)
qed

lemma least_free_candidate:
  assumes "finite (files s \<union> dirs s)"
  obtains k where "c \<le> k" "\<not> exists (candidate name k) s"
    "\<forall>j. c \<le> j \<and> j < k \<longrightarrow> exists (candidate name j) s"
proof -
  let ?P = "\<lambda>k. c \<le> k \<and> \<not> exists (candidate name k) s"
  from free_candidate [OF assms] have "\<exists>k. ?P k" by blast
  then have "?P (LEAST k. ?P k)" by (rule LeastI_ex)
  moreover have "\<forall>j. c \<le> j \<and> j < (LEAST k. ?P k) \<longrightarrow> exists (candidate name j) s"
    using not_less_Least by blast
  ultimately show ?thesis using that by blast
qed

lemma no_overwrite_result:
  assumes "finite (files s \<union> dirs s)"
  shows "\<exists>r. no_overwrite s name = Some r \<and> \<not> exists r s
           \<and> (\<not> exists name s \<longrightarrow> r = name)
           \<and> (exists name s \<longrightarrow>
                (\<exists>k\<ge>1. r = candidate name k \<and> (\<forall>j. 1 \<le> j \<and> j < k \<longrightarrow> exists (candidate name j) s)))"
proof (cases "exists name s")
  case False
  then show ?thesis
    by (simp add: no_overwrite_def no_overwrite_loop_step)
next
  case True
  obtain k where k: "1 \<le> k" "\<not> exists (candidate name k) s"
    "\<forall>j. 1 \<le> j \<and> j < k \<longrightarrow> exists (candidate name j) s"
    using least_free_candidate [OF assms, of 1 name] by blast
  have "no_overwrite_loop s (fst (splitext name)) (snd (splitext name)) (candidate name 1) (Suc 1)
        = Some (candidate name k)"
    using k(3,2,1) by (rule no_overwrite_loop_finds)
  with True have "no_overwrite s name = Some (candidate name k)"
    by (simp add: no_overwrite_def no_overwrite_loop_step [of s name name])
  with True k show ?thesis
    by auto
qed

lemma rfind_from_append:
  "rfind_from c (xs @ ys) k acc = rfind_from c ys (k + length xs) (rfind_from c xs k acc)"
  by (induction xs arbitrary: k acc) simp_all

lemma rfind_from_absent: "c \<notin> set ys \<Longrightarrow> rfind_from c ys k acc = acc"
  by (induction ys arbitrary: k) auto

lemma rfind_from_bound:
  "rfind_from c xs k acc = Some i \<Longrightarrow> acc = Some i \<or> (k \<le> i \<and> i < k + length xs)"
proof (induction xs arbitrary: k acc)
  case Nil
  then show ?case by simp
next
  case (Cons x xs)
  from Cons.prems have "rfind_from c xs (Suc k) (if x = c then Some k else acc) = Some i"
    by simp
  from Cons.IH [OF this] show ?case
    by (auto split: if_splits)
qed

lemma splitext_dotted:
  assumes "CHR ''.'' \<notin> set ext" and "CHR ''/'' \<notin> set ext"
  shows "splitext (pre @ ''x.'' @ ext) = (pre @ ''x'', ''.'' @ ext)"
proof -
  let ?p = "pre @ ''x.'' @ ext"
  have p1: "?p = (pre @ ''x'') @ [CHR ''.''] @ ext" by simp
  have dot: "rfind CHR ''.'' ?p = Some (Suc (length pre))"
    unfolding rfind_def p1 rfind_from_append using assms(1)
    by (simp add: rfind_from_absent)
  have "rfind CHR ''/'' ?p = rfind_from CHR ''/'' pre 0 None"
    unfolding rfind_def rfind_from_append using assms(2)
    by (simp add: rfind_from_absent)
  then have sep: "(case rfind CHR ''/'' ?p of None \<Rightarrow> 0 | Some sepIndex \<Rightarrow> Suc sepIndex) \<le> length pre"
    using rfind_from_bound [of "CHR ''/''" pre 0 None]
    by (auto split: option.splits)
  define f where "f = (case rfind CHR ''/'' ?p of None \<Rightarrow> 0 | Some sepIndex \<Rightarrow> Suc sepIndex)"
  have f: "f \<le> length pre" using sep by (simp add: f_def)
  have "(take (Suc (length pre) - f) (drop f ?p)) ! (length pre - f) = CHR ''x''"
    using f by (simp add: nth_append)
  moreover have "length pre - f < length (take (Suc (length pre) - f) (drop f ?p))"
    using f by simp
  ultimately have "CHR ''x'' \<in> set (take (Suc (length pre) - f) (drop f ?p))"
    by (metis nth_mem)
  then have ex: "list_ex (\<lambda>c. c \<noteq> CHR ''.'') (take (Suc (length pre) - f) (drop f ?p))"
    unfolding list_ex_iff by (rule bexI [rotated]) simp
  have "splitext ?p = (take (Suc (length pre)) ?p, drop (Suc (length pre)) ?p)"
    using f ex unfolding splitext_def dot f_def by (simp add: Let_def)
  then show ?thesis by simp
qed

lemma derived_name_candidate:
  assumes "CHR ''.'' \<notin> set (cfg_output_container cfg)" and "CHR ''/'' \<notin> set (cfg_output_container cfg)"
  shows "candidate (derived_name input cfg) k =
           fst (splitext input) @ ''_upscaled_'' @ cfg_upscaler_algorithm cfg
           @ cfg_upscaler_magnification_factor cfg @ ''x('' @ str_nat k @ '').'' @ cfg_output_container cfg"
proof -
  define pre where "pre = fst (splitext input) @ ''_upscaled_'' @ cfg_upscaler_algorithm cfg
           @ cfg_upscaler_magnification_factor cfg"
  have e: "derived_name input cfg = pre @ ''x.'' @ cfg_output_container cfg"
    by (simp add: derived_name_def pre_def)
  have h: "splitext (pre @ ''x.'' @ cfg_output_container cfg) = (pre @ ''x'', ''.'' @ cfg_output_container cfg)"
    using assms by (rule splitext_dotted)
  have "candidate (derived_name input cfg) k = pre @ ''x('' @ str_nat k @ '').'' @ cfg_output_container cfg"
    unfolding candidate_def e h by simp
  then show ?thesis
    by (simp add: pre_def)
qed

lemma splitext_clip: "splitext ''clip.mkv'' = (''clip'', ''.mkv'')"
  by (simp add: splitext_def rfind_def)

lemma demo_derived_name:
  "derived_name ''clip.mkv'' (demo_config scale ''2'') = ''clip_upscaled_XBR2x.mp4''"
  by (simp add: derived_name_def demo_config_def splitext_clip)

lemma splitext_out: "splitext ''clip_upscaled_XBR2x.mp4'' = (''clip_upscaled_XBR2x'', ''.mp4'')"
  by (simp add: splitext_def rfind_def)

lemma demo_candidates:
  "candidate ''clip_upscaled_XBR2x.mp4'' (Suc 0) = ''clip_upscaled_XBR2x(1).mp4''"
  "candidate ''clip_upscaled_XBR2x.mp4'' 2 = ''clip_upscaled_XBR2x(2).mp4''"
  by (simp_all add: candidate_def splitext_out str_nat.simps digit_char_def)

text \<open>
  Claim C6. On a file system with finitely many entries \<^verbatim>\<open>no_overwrite\<close> returns,
  for the name derived from the input stem, the algorithm, the magnification factor
  and the container. The returned path does not exist. It is the derived name
  itself if that does not exist; otherwise it is the candidate with the smallest
  counter, counted from 1, that does not exist: every candidate with a smaller
  counter exists. For a container without a dot or a slash the candidate with
  counter \<open>k\<close> is the derived name with \<^verbatim>\<open>(k)\<close> put before \<^verbatim>\<open>.container\<close>.
\<close>

theorem no_overwrite_spec:
  assumes "finite (files s \<union> dirs s)"
  shows "\<exists>r. no_overwrite s (derived_name input cfg) = Some r
           \<and> derived_name input cfg =
               fst (splitext input) @ ''_upscaled_'' @ cfg_upscaler_algorithm cfg
               @ cfg_upscaler_magnification_factor cfg @ ''x.'' @ cfg_output_container cfg
           \<and> \<not> exists r s
           \<and> (\<not> exists (derived_name input cfg) s \<longrightarrow> r = derived_name input cfg)
           \<and> (exists (derived_name input cfg) s \<longrightarrow>
                (\<exists>k\<ge>1. r = candidate (derived_name input cfg) k
                   \<and> (\<forall>j. 1 \<le> j \<and> j < k \<longrightarrow> exists (candidate (derived_name input cfg) j) s)))
           \<and> (CHR ''.'' \<notin> set (cfg_output_container cfg) \<and> CHR ''/'' \<notin> set (cfg_output_container cfg) \<longrightarrow>
                (\<forall>k. candidate (derived_name input cfg) k =
                   fst (splitext input) @ ''_upscaled_'' @ cfg_upscaler_algorithm cfg
                   @ cfg_upscaler_magnification_factor cfg @ ''x('' @ str_nat k @ '').''
                   @ cfg_output_container cfg))"
  using no_overwrite_result [OF assms, of "derived_name input cfg"]
    derived_name_candidate [of cfg input]
  by (auto simp: derived_name_def)

theorem no_overwrite_spec_witness:
  "finite (files rerun_state \<union> dirs rerun_state)
   \<and> exists (derived_name ''clip.mkv'' (demo_config ''200'' ''2'')) rerun_state
   \<and> no_overwrite rerun_state (derived_name ''clip.mkv'' (demo_config ''200'' ''2''))
       = Some ''clip_upscaled_XBR2x(2).mp4''"
proof -
  let ?D = "derived_name ''clip.mkv'' (demo_config ''200'' ''2'')"
  have fin: "finite (files rerun_state \<union> dirs rerun_state)"
    by (simp add: rerun_state_def)
  have ex0: "exists ?D rerun_state"
    by (simp add: demo_derived_name exists_def rerun_state_def)
  have ex1: "exists (candidate ?D (Suc 0)) rerun_state"
    by (simp add: demo_derived_name demo_candidates exists_def rerun_state_def)
  have ex2: "\<not> exists (candidate ?D 2) rerun_state"
    by (simp add: demo_derived_name demo_candidates exists_def rerun_state_def)
  from no_overwrite_spec [OF fin, of "''clip.mkv''" "demo_config ''200'' ''2''"] ex0
  obtain r k where r: "no_overwrite rerun_state ?D = Some r" "\<not> exists r rerun_state"
    and k: "1 \<le> k" "r = candidate ?D k" "\<forall>j. 1 \<le> j \<and> j < k \<longrightarrow> exists (candidate ?D j) rerun_state"
    by blast
  have "k \<noteq> 1" using r(2) k(2) ex1 by auto
  moreover have "\<not> 2 < k" using k(3) ex2 by auto
  ultimately have "k = 2" using k(1) by simp
  with r(1) k(2) fin ex0 show ?thesis
    by (simp add: demo_derived_name demo_candidates)
qed

section \<open>Interruption\<close>

lemma signal_handler_existing:
  assumes "d \<in> dirs s" and "children d (dirs s) = {}"
  shows "signal_handler (Some d) s =
           (Raise (SystemExit 0),
            s\<lparr>exit_event := True, trace := trace s @ [Print ''Ctrl+C received, cleaning up...''],
              files := files s - children d (files s), dirs := dirs s - {d}\<rparr>)"
  using assms by (simp add: signal_handler_def seq_def print_def raise_def cleanup_def)

lemma demo_frames_lit:
  "raw_frame ''.temp_frames'' 0 = ''.temp_frames/frame_00000.png''"
  "raw_frame ''.temp_frames'' (Suc 0) = ''.temp_frames/frame_00001.png''"
  "up_frame ''.temp_frames'' 0 = ''.temp_frames/frame_00000_up.png''"
  "up_frame ''.temp_frames'' (Suc 0) = ''.temp_frames/frame_00001_up.png''"
  using demo_frames by (simp_all add: temp_dir_def)

lemmas task_defs =
  run_task_def upscale_frame_def upscale_cmd_def upscale_exception_def
  upscale_called_process_error_def spawn_def write_file_def
  seq_def print_def raise_def return_unit_def
  cleanup_def children_def is_child_def
  demo_world_simps centi_of_str_def temp_dir_def demo_frames_lit Let_def

text \<open>
  Claim C2, as amended. Let the interruption signal arrive while the staging
  directory exists and holds only regular files, and let nothing else change the
  directory while the handler runs, the handler being one step. Then the handler
  sets the cancellation flag and removes the staging directory with everything in
  it, and it ends the main thread with \<^verbatim>\<open>SystemExit(0)\<close>: the exit status of the
  process is 0. The handler creates no file, and it removes none outside the staging
  directory, so it leaves no output file that was not there before the signal.
\<close>

theorem signal_handler_release:
  assumes "d \<in> dirs s" and "children d (dirs s) = {}"
  shows "\<exists>s'. signal_handler (Some d) s = (Raise (SystemExit 0), s')
           \<and> exit_status (fst (signal_handler (Some d) s)) = 0
           \<and> exit_event s'
           \<and> d \<notin> dirs s' \<and> children d (files s') = {}
           \<and> files s' = files s - children d (files s)
           \<and> dirs s' = dirs s - {d}"
proof -
  let ?s1 = "s\<lparr>exit_event := True, trace := trace s @ [Print ''Ctrl+C received, cleaning up...''],
              files := files s - children d (files s), dirs := dirs s - {d}\<rparr>"
  have h: "signal_handler (Some d) s = (Raise (SystemExit 0), ?s1)"
    using assms by (rule signal_handler_existing)
  show ?thesis
    by (simp add: h children_Diff_self)
qed

theorem signal_handler_release_witness:
  "temp_dir \<in> dirs staged_state \<and> children temp_dir (dirs staged_state) = {}
   \<and> (\<exists>s'. signal_handler (Some temp_dir) staged_state = (Raise (SystemExit 0), s')
          \<and> exit_event s' \<and> temp_dir \<notin> dirs s' \<and> children temp_dir (files s') = {}
          \<and> ''clip.mkv'' \<in> files s'
          \<and> ''.temp_frames/frame_00000.png'' \<notin> files s'
          \<and> ''clip_upscaled_XBR2x.mp4'' \<notin> files s')"
proof -
  have 1: "temp_dir \<in> dirs staged_state"
    by (simp add: temp_dir_def staged_state_def)
  have 2: "children temp_dir (dirs staged_state) = {}"
    by (simp add: temp_dir_def staged_state_def children_def is_child_def)
  have 3: "''clip.mkv'' \<in> files staged_state - children temp_dir (files staged_state)"
    "''.temp_frames/frame_00000.png'' \<notin> files staged_state - children temp_dir (files staged_state)"
    "''clip_upscaled_XBR2x.mp4'' \<notin> files staged_state - children temp_dir (files staged_state)"
    by (simp_all add: temp_dir_def staged_state_def children_def is_child_def)
  from signal_handler_release [OF 1 2]
  obtain s' where "signal_handler (Some temp_dir) staged_state = (Raise (SystemExit 0), s')"
      "exit_event s'" "temp_dir \<notin> dirs s'" "children temp_dir (files s') = {}"
      "files s' = files staged_state - children temp_dir (files staged_state)"
    by blast
  with 1 2 3 show ?thesis
    by auto
qed

text \<open>
  Claim C2 as stated fails on the exit status: interrupted after the extraction of
  two frames, before any task of the dispatch has started, the handler releases the
  staging directory and the process ends with status 0.
\<close>

theorem signal_handler_exit_counterexample:
  "fst (signal_handler (Some temp_dir) staged_state) = Raise (SystemExit 0)
   \<and> exit_status (fst (signal_handler (Some temp_dir) staged_state)) = 0
   \<and> temp_dir \<notin> dirs (snd (signal_handler (Some temp_dir) staged_state))"
  by (simp add: signal_handler_def seq_def print_def raise_def cleanup_def temp_dir_def
      staged_state_def children_def is_child_def)

section \<open>Runs of the script\<close>

lemma check_dependencies_ok:
  assumes "isfile (cfg_imageresizer_path cfg) s" and "access_x_ok w (cfg_imageresizer_path cfg)"
    and "which w ''ffmpeg''"
  shows "check_dependencies w cfg s = (Return (), s)"
  using assms by (simp add: check_dependencies_def)

lemma makedirs_ok:
  assumes "d \<notin> files s"
  shows "makedirs d s = (Return (), s\<lparr>dirs := insert d (dirs s)\<rparr>)"
  using assms by (simp add: makedirs_def insert_absorb)

lemma extract_frames_none:
  assumes "cv2_frames w input = 0"
  shows "extract_frames w input d s = (Return 0, s)"
  using assms by (simp add: extract_frames_def extract_loop.simps)

lemma upscale_frames_none:
  "upscale_frames w d 0 irp sc mag alg res v s = (Return (), s)"
  by (simp add: upscale_frames_def)

lemma encode_video_input_missing:
  assumes "\<not> isfile input s"
  shows "encode_video w input out d n args v s =
           (Raise (SystemExit 1),
            s\<lparr>trace := trace s @ [Print (''Error: input video file not found. Given path:'' @ nl @ input)]\<rparr>)"
  using assms by (simp add: encode_video_def get_fps_def seq_def print_def raise_def)

subsection \<open>Evaluating the concrete runs\<close>

lemma demo_config_simps:
  "cfg_imageresizer_path (demo_config scale mag) = ''ImageResizer.exe''"
  "cfg_output_scale_factor (demo_config scale mag) = scale"
  "cfg_output_container (demo_config scale mag) = ''mp4''"
  "cfg_upscaler_magnification_factor (demo_config scale mag) = mag"
  "cfg_upscaler_algorithm (demo_config scale mag) = ''XBR''"
  "cfg_ffmpeg_args (demo_config scale mag) = []"
  by (simp_all add: demo_config_def)

lemmas run_defs =
  main_def check_dependencies_def isfile_def makedirs_def
  extract_frames_def imwrite_def exists_def
  upscale_frames_def
  no_overwrite_def demo_derived_name
  encode_video_def get_fps_def get_missing_frames_def get_resolution_def ffmpeg_cmd_of_def
  default_ffmpeg_args_def encode_exception_def encode_called_process_error_def
  demo_config_simps demo_state_def task_defs

lemmas extract_loop_unfold =
  extract_loop.simps [of _ _ _ 0] extract_loop.simps [of _ _ _ "Suc 0"]
  extract_loop.simps [of _ _ _ "Suc (Suc 0)"]

lemmas no_overwrite_loop_unfold =
  no_overwrite_loop.simps [of _ _ _ _ "Suc 0"] no_overwrite_loop.simps [of _ _ _ _ "Suc (Suc 0)"]

lemma upt_Suc_lits: "[0..<Suc 0] = [0]" "[0..<Suc (Suc 0)] = [0, Suc 0]"
  by (simp_all add: upt_rec)

lemma str_centi_3000: "str_centi 3000 = ''30.0''"
  by (simp add: str_centi_def str_int_def str_nat.simps digit_char_def)

lemma splitext_nothere: "splitext ''nothere.mkv'' = (''nothere'', ''.mkv'')"
  by (simp add: splitext_def rfind_def)

lemma demo_derived_name_nothere:
  "derived_name ''nothere.mkv'' (demo_config scale ''2'') = ''nothere_upscaled_XBR2x.mp4''"
  by (simp add: derived_name_def demo_config_def splitext_nothere)

lemma splitext_out_nothere:
  "splitext ''nothere_upscaled_XBR2x.mp4'' = (''nothere_upscaled_XBR2x'', ''.mp4'')"
  by (simp add: splitext_def rfind_def)

lemmas eval_simps = run_defs extract_loop_unfold no_overwrite_loop_unfold splitext_clip splitext_out
  upt_Suc_lits upt_0_2 str_centi_3000 demo_derived_name_nothere splitext_out_nothere

section \<open>A missing input file\<close>

text \<open>
  Claim C7, as amended. When the input path is not an existing file and the decoder
  delivers no frame from it, frame extraction does not fail: \<^verbatim>\<open>extract_frames\<close>
  returns 0 and changes nothing. The run (whose dependency check passed and whose
  configured scale factor is a number) then fails in \<^verbatim>\<open>get_fps\<close>, at the start of the
  reassembly step: it prints the input-not-found error and ends with
  \<^verbatim>\<open>sys.exit(1)\<close>. Up to there no external command is run and no file is created
  or removed.
\<close>

theorem missing_input_run:
  assumes "isfile (cfg_imageresizer_path cfg) s" and "access_x_ok w (cfg_imageresizer_path cfg)"
    and "which w ''ffmpeg''"
    and "temp_dir \<notin> files s"
    and "\<not> isfile input s"
    and "cv2_frames w input = 0"
    and "float_of_str w (cfg_output_scale_factor cfg) = Inr x"
    and "finite (files s \<union> dirs s)"
  shows "extract_frames w input temp_dir s = (Return 0, s)
         \<and> (\<exists>s'. main w cfg input verbose s = Some (Raise (SystemExit 1), s')
               \<and> trace s' = trace s @ [Print ''Extracting frames...'',
                    Print (''Error: input video file not found. Given path:'' @ nl @ input)]
               \<and> spawned (trace s') = spawned (trace s)
               \<and> files s' = files s)"
proof -
  let ?s1 = "s\<lparr>dirs := insert temp_dir (dirs s), trace := trace s @ [Print ''Extracting frames...'']\<rparr>"
  have pre: "seq (check_dependencies w cfg)
          (seq (makedirs temp_dir)
          (seq (print ''Extracting frames...'')
               (extract_frames w input temp_dir))) s = (Return 0, ?s1)"
    using assms(1-4,6)
    by (simp add: seq_def check_dependencies_ok makedirs_ok print_def extract_frames_none)
  have "finite (files ?s1 \<union> dirs ?s1)"
    using assms(8) by simp
  then obtain out where out: "no_overwrite ?s1 (derived_name input cfg) = Some out"
    using no_overwrite_result by blast
  have "\<not> isfile input ?s1"
    using assms(5) by (simp add: isfile_def)
  then have enc: "encode_video w input out temp_dir 0 (cfg_ffmpeg_args cfg) verbose ?s1 =
      (Raise (SystemExit 1),
       ?s1\<lparr>trace := trace ?s1 @ [Print (''Error: input video file not found. Given path:'' @ nl @ input)]\<rparr>)"
    by (rule encode_video_input_missing)
  have "main w cfg input verbose s =
      Some (Raise (SystemExit 1),
       ?s1\<lparr>trace := trace ?s1 @ [Print (''Error: input video file not found. Given path:'' @ nl @ input)]\<rparr>)"
    unfolding main_def pre using assms(7) out enc
    by (simp add: Let_def upscale_frames_none seq_def)
  then show ?thesis
    using assms(6) by (simp add: extract_frames_none spawned_append)
qed

theorem missing_input_run_witness:
  "isfile (cfg_imageresizer_path (demo_config ''200'' ''2'')) demo_state
   \<and> \<not> isfile ''nothere.mkv'' demo_state
   \<and> cv2_frames (demo_world 0 (\<lambda>p. True) all_succeed) ''nothere.mkv'' = 0
   \<and> (\<exists>s'. main (demo_world 0 (\<lambda>p. True) all_succeed) (demo_config ''200'' ''2'') ''nothere.mkv''
              False demo_state = Some (Raise (SystemExit 1), s')
          \<and> trace s' = [Print ''Extracting frames...'',
                Print (''Error: input video file not found. Given path:'' @ nl @ ''nothere.mkv'')]
          \<and> files s' = files demo_state)"
proof -
  let ?w = "demo_world 0 (\<lambda>p. True) all_succeed"
  let ?cfg = "demo_config ''200'' ''2''"
  have 1: "isfile (cfg_imageresizer_path ?cfg) demo_state"
    by (simp add: isfile_def demo_config_def demo_state_def)
  have 2: "access_x_ok ?w (cfg_imageresizer_path ?cfg)" and 3: "which ?w ''ffmpeg''"
    by (simp_all add: demo_world_simps)
  have 4: "temp_dir \<notin> files demo_state"
    by (simp add: temp_dir_def demo_state_def)
  have 5: "\<not> isfile ''nothere.mkv'' demo_state"
    by (simp add: isfile_def demo_state_def)
  have 6: "cv2_frames ?w ''nothere.mkv'' = 0"
    by (simp add: demo_world_simps)
  have 7: "float_of_str ?w (cfg_output_scale_factor ?cfg) = Inr 20000"
    by (simp add: demo_world_simps demo_config_def centi_of_str_def)
  have 8: "finite (files demo_state \<union> dirs demo_state)"
    by (simp add: demo_state_def)
  have 9: "trace demo_state = []"
    by (simp add: demo_state_def)
  from missing_input_run [OF 1 2 3 4 5 6 7 8, of False] 1 5 6 9
  show ?thesis by auto
qed

text \<open>
  Claim C7 as stated fails: for a path that is not an existing file, frame
  extraction returns the count 0 and raises nothing.
\<close>

theorem extract_frames_missing_input_counterexample:
  "\<not> isfile ''nothere.mkv'' demo_state
   \<and> extract_frames (demo_world 0 (\<lambda>p. True) all_succeed) ''nothere.mkv'' temp_dir demo_state
       = (Return 0, demo_state)"
  by (simp add: isfile_def demo_state_def extract_frames_def extract_loop_unfold demo_world_simps)

section \<open>Fatal exits and the staging area\<close>

text \<open>
  Claim C3 says that every fatal condition releases the staging area before the
  process ends. The script does so where a frame fails to upscale and where the
  frame set is incomplete, but not on two other fatal paths. With a missing
  input file the run ends with exit status 1 in \<^verbatim>\<open>get_fps\<close> and the staging directory
  it created is still there. When the second frame cannot be written, the run ends
  with exit status 1 in \<^verbatim>\<open>extract_frames\<close>, and the staging directory and the first
  extracted frame are still there.
\<close>

theorem fatal_exit_without_cleanup:
  "(\<exists>s'. main (demo_world 0 (\<lambda>p. True) all_succeed) (demo_config ''200'' ''2'') ''nothere.mkv''
          False demo_state = Some (Raise (SystemExit 1), s')
        \<and> temp_dir \<in> dirs s')
   \<and> (\<exists>s'. main (demo_world 2 (\<lambda>p. p \<noteq> ''.temp_frames/frame_00001.png'') all_succeed)
          (demo_config ''200'' ''2'') ''clip.mkv'' False demo_state = Some (Raise (SystemExit 1), s')
        \<and> trace s' = [Print ''Extracting frames...'', Print ''Frame extraction failed for frame 1'']
        \<and> temp_dir \<in> dirs s'
        \<and> ''.temp_frames/frame_00000.png'' \<in> files s')"
  by (simp add: eval_simps all_succeed_def str_nat.simps digit_char_def)

section \<open>Frames in the staging area\<close>







section \<open>Dispatch keeps the staging invariant\<close>



lemma fst_seq_raise_exit:
  "exit_status (fst (seq m (raise (SystemExit 1)) s)) = 1 \<or> fst (seq m (raise (SystemExit 1)) s) = fst (m s)"
  by (simp add: seq_def raise_def split: prod.splits res.splits)



lemma staging_ok_trace [simp]: "staging_ok d F (s\<lparr>trace := t\<rparr>) = staging_ok d F s"
  by (simp add: staging_ok_def outside_def)











section \<open>A failing upscale invocation\<close>

subsection \<open>The two steps of a task\<close>

lemma upscale_frame_split:
  "run_task (upscale_frame w i d irp sc mag alg res v) s =
     (case upscale_frame_start w i d irp sc mag alg res v s of
        (None, s1) \<Rightarrow> s1
      | (Some cmd, s1) \<Rightarrow> upscale_frame_end w i d v cmd s1)"
  by (simp add: run_task_def upscale_frame_def upscale_frame_start_def upscale_frame_end_def Let_def
      split: sum.splits)

lemma upscale_frame_start_quiet:
  assumes "int_of_float w (int_times_float w (fst res) sc) = Inr nw"
    and "int_of_float w (int_times_float w (snd res) sc) = Inr nh"
    and "float_of_str w mag = Inr m"
  shows "upscale_frame_start w i d irp sc mag alg res False s =
           (Some (upscale_cmd w irp (raw_frame d i) (up_frame d i) sc mag m alg nw nh),
            s\<lparr>trace := trace s
                  @ [Spawn (upscale_cmd w irp (raw_frame d i) (up_frame d i) sc mag m alg nw nh) PIPE]\<rparr>)"
  using assms by (simp add: upscale_frame_start_def Let_def spawn_def)

lemma upscale_frame_end_failure:
  assumes "subprocess_run w c = Exited rc out err" and "rc \<noteq> 0"
    and "d \<in> dirs s" and "children d (dirs s) = {}"
  shows "upscale_frame_end w i d False c s =
           s\<lparr>trace := trace s @ [Print (''Error: Upscaling frame '' @ str_nat i
                                          @ '' failed with exit code '' @ str_int rc @ ''.'')],
             files := files s - children d (files s), dirs := dirs s - {d}\<rparr>"
  using assms
  by (simp add: upscale_frame_end_def upscale_called_process_error_def seq_def print_def
      return_unit_def raise_def cleanup_def)

subsection \<open>Schedules\<close>

lemma pool_run_append:
  "pool_run step (xs @ ys) p =
     (case pool_run step xs p of None \<Rightarrow> None | Some q \<Rightarrow> pool_run step ys q)"
  by (induction xs arbitrary: p) (simp_all split: option.splits)

text \<open>
  The schedule in which every task has ended before the next one starts is a schedule
  of every pool, and under it the dispatch is \<open>upscale_frames\<close>.
\<close>

lemma pool_one_task:
  assumes "0 < max_workers" and "pending p = i # rest" and "in_flight p = []"
  shows "pool_run (pool_step max_workers w d irp sc mag alg res v) [Start, Finish i] p =
           Some (p\<lparr>pending := rest, in_flight := [],
                   pstate := run_task (upscale_frame w i d irp sc mag alg res v) (pstate p)\<rparr>)"
  using assms
  by (simp add: pool_step_def Let_def upscale_frame_split split: prod.splits option.splits)

lemma pool_sequential:
  assumes "0 < max_workers"
  shows "pending p = xs \<Longrightarrow> in_flight p = [] \<Longrightarrow>
         pool_run (pool_step max_workers w d irp sc mag alg res v)
           (concat (map (\<lambda>i. [Start, Finish i]) xs)) p =
           Some (p\<lparr>pending := [], in_flight := [],
                   pstate := foldl (\<lambda>s' i. run_task (upscale_frame w i d irp sc mag alg res v) s')
                               (pstate p) xs\<rparr>)"
proof (induction xs arbitrary: p)
  case Nil
  then show ?case by simp
next
  case (Cons i rest)
  let ?q = "p\<lparr>pending := rest, in_flight := [],
               pstate := run_task (upscale_frame w i d irp sc mag alg res v) (pstate p)\<rparr>"
  have 1: "pool_run (pool_step max_workers w d irp sc mag alg res v) [Start, Finish i] p = Some ?q"
    using assms Cons.prems by (rule pool_one_task)
  have 2: "pool_run (pool_step max_workers w d irp sc mag alg res v)
             (concat (map (\<lambda>i. [Start, Finish i]) rest)) ?q =
           Some (?q\<lparr>pending := [], in_flight := [],
                   pstate := foldl (\<lambda>s' i. run_task (upscale_frame w i d irp sc mag alg res v) s')
                               (pstate ?q) rest\<rparr>)"
    by (rule Cons.IH) simp_all
  have "concat (map (\<lambda>i. [Start, Finish i]) (i # rest))
        = [Start, Finish i] @ concat (map (\<lambda>i. [Start, Finish i]) rest)"
    by simp
  then show ?case
    using 1 2 by (simp only: pool_run_append) simp
qed

lemma upscale_frames_sequential:
  assumes "0 < max_workers"
  shows "upscale_frames_pool max_workers (concat (map (\<lambda>i. [Start, Finish i]) [0..<n]))
           w d n irp sc mag alg res v s =
         Some \<lparr>pending = [], in_flight = [],
               pstate = snd (upscale_frames w d n irp sc mag alg res v s)\<rparr>"
  using pool_sequential [OF assms, of "\<lparr>pending = [0..<n], in_flight = [], pstate = s\<rparr>" "[0..<n]"
      w d irp sc mag alg res v]
  by (simp add: upscale_frames_pool_def upscale_frames_def)

lemma pool_starts:
  assumes "int_of_float w (int_times_float w (fst res) sc) = Inr nw"
    and "int_of_float w (int_times_float w (snd res) sc) = Inr nh"
    and "float_of_str w mag = Inr m"
  shows "pending p = [a..<n] \<Longrightarrow> a + k \<le> n \<Longrightarrow> length (in_flight p) + k \<le> max_workers \<Longrightarrow>
         pool_run (pool_step max_workers w d irp sc mag alg res False) (replicate k Start) p =
           Some \<lparr>pending = [a + k..<n],
                 in_flight = in_flight p
                   @ map (\<lambda>i. (i, Some (upscale_cmd w irp (raw_frame d i) (up_frame d i) sc mag m alg nw nh)))
                       [a..<a + k],
                 pstate = (pstate p)\<lparr>trace := trace (pstate p)
                   @ map (\<lambda>i. Spawn (upscale_cmd w irp (raw_frame d i) (up_frame d i) sc mag m alg nw nh) PIPE)
                       [a..<a + k]\<rparr>\<rparr>"
proof (induction k arbitrary: p a)
  case 0
  then show ?case by simp
next
  case (Suc k)
  let ?cmd = "\<lambda>i. upscale_cmd w irp (raw_frame d i) (up_frame d i) sc mag m alg nw nh"
  let ?q = "p\<lparr>pending := [Suc a..<n], in_flight := in_flight p @ [(a, Some (?cmd a))],
               pstate := (pstate p)\<lparr>trace := trace (pstate p) @ [Spawn (?cmd a) PIPE]\<rparr>\<rparr>"
  have pend: "pending p = a # [Suc a..<n]"
    using Suc.prems(1,2) by (simp add: upt_conv_Cons)
  have step: "pool_step max_workers w d irp sc mag alg res False Start p = Some ?q"
    using Suc.prems(3) pend
    by (simp add: pool_step_def Let_def upscale_frame_start_quiet [OF assms])
  have rest: "pool_run (pool_step max_workers w d irp sc mag alg res False) (replicate k Start) ?q =
           Some \<lparr>pending = [Suc a + k..<n],
                 in_flight = in_flight ?q @ map (\<lambda>i. (i, Some (?cmd i))) [Suc a..<Suc a + k],
                 pstate = (pstate ?q)\<lparr>trace := trace (pstate ?q)
                   @ map (\<lambda>i. Spawn (?cmd i) PIPE) [Suc a..<Suc a + k]\<rparr>\<rparr>"
    using Suc.prems(2,3) by (intro Suc.IH) simp_all
  have "[a..<a + Suc k] = a # [Suc a..<Suc a + k]"
    by (simp add: upt_conv_Cons)
  then show ?case
    using step rest by simp
qed

lemma filter_fst_neq_first:
  "filter (\<lambda>t. fst t \<noteq> a) (map (\<lambda>i. (i, f i)) [a..<b]) = map (\<lambda>i. (i, f i)) [Suc a..<b]"
proof (cases "a < b")
  case True
  have "filter (\<lambda>t. fst t \<noteq> a) (map (\<lambda>i. (i, f i)) [Suc a..<b]) = map (\<lambda>i. (i, f i)) [Suc a..<b]"
    by (rule filter_True) auto
  then show ?thesis
    using True by (simp add: upt_conv_Cons)
next
  case False
  then show ?thesis by simp
qed

lemma filter_fst_pos:
  "filter (\<lambda>t. 0 < fst t) (map (\<lambda>i. (i, f i)) [0..<b]) = map (\<lambda>i. (i, f i)) [Suc 0..<b]"
  using filter_fst_neq_first [of 0 f b] by simp

text \<open>
  A pool with fewer workers than frames, frame 0 failing before any other resizer has
  ended: every worker starts a task, the task of frame 0 reports the failure and
  releases the staging area, and its worker then takes the next frame from the queue.
\<close>

lemma pool_frame_after_failure:
  assumes "int_of_float w (int_times_float w (fst res) sc) = Inr nw"
    and "int_of_float w (int_times_float w (snd res) sc) = Inr nh"
    and "float_of_str w mag = Inr m"
    and "subprocess_run w (upscale_cmd w irp (raw_frame d 0) (up_frame d 0) sc mag m alg nw nh)
         = Exited rc out err"
    and "rc \<noteq> 0"
    and "d \<in> dirs s" and "children d (dirs s) = {}"
    and "0 < max_workers" and "max_workers < n"
  shows "upscale_frames_pool max_workers (replicate max_workers Start @ [Finish 0, Start])
           w d n irp sc mag alg res False s =
         Some \<lparr>pending = [Suc max_workers..<n],
               in_flight = map (\<lambda>i. (i, Some (upscale_cmd w irp (raw_frame d i) (up_frame d i) sc mag m alg nw nh)))
                             [Suc 0..<Suc max_workers],
               pstate = s\<lparr>trace := trace s
                  @ map (\<lambda>i. Spawn (upscale_cmd w irp (raw_frame d i) (up_frame d i) sc mag m alg nw nh) PIPE)
                      [0..<max_workers]
                  @ [Print (''Error: Upscaling frame '' @ str_nat 0 @ '' failed with exit code ''
                            @ str_int rc @ ''.''),
                     Spawn (upscale_cmd w irp (raw_frame d max_workers) (up_frame d max_workers)
                              sc mag m alg nw nh) PIPE],
                 files := files s - children d (files s), dirs := dirs s - {d}\<rparr>\<rparr>"
proof -
  let ?cmd = "\<lambda>i. upscale_cmd w irp (raw_frame d i) (up_frame d i) sc mag m alg nw nh"
  let ?step = "pool_step max_workers w d irp sc mag alg res False"
  let ?p0 = "\<lparr>pending = [0..<n], in_flight = [], pstate = s\<rparr>"
  let ?s1 = "s\<lparr>trace := trace s @ map (\<lambda>i. Spawn (?cmd i) PIPE) [0..<max_workers]\<rparr>"
  let ?p1 = "\<lparr>pending = [max_workers..<n],
              in_flight = map (\<lambda>i. (i, Some (?cmd i))) [0..<max_workers],
              pstate = ?s1\<rparr>"
  let ?s2 = "?s1\<lparr>trace := trace ?s1 @ [Print (''Error: Upscaling frame '' @ str_nat 0
                                          @ '' failed with exit code '' @ str_int rc @ ''.'')],
             files := files ?s1 - children d (files ?s1), dirs := dirs ?s1 - {d}\<rparr>"
  let ?p2 = "\<lparr>pending = [max_workers..<n],
              in_flight = map (\<lambda>i. (i, Some (?cmd i))) [Suc 0..<max_workers],
              pstate = ?s2\<rparr>"
  have A: "pool_run ?step (replicate max_workers Start) ?p0 = Some ?p1"
    using pool_starts [OF assms(1-3), of ?p0 0 n max_workers max_workers d irp alg] assms(9)
    by simp
  have first: "[0..<max_workers] = 0 # [Suc 0..<max_workers]"
    using assms(8) by (simp add: upt_conv_Cons)
  have look: "map_of (in_flight ?p1) 0 = Some (Some (?cmd 0))"
    by (simp add: first)
  have "upscale_frame_end w 0 d False (?cmd 0) ?s1 = ?s2"
    using assms(4,5) by (rule upscale_frame_end_failure) (simp_all add: assms(6,7))
  then have B: "?step (Finish 0) ?p1 = Some ?p2"
    using look by (simp add: pool_step_def filter_fst_pos)
  have pend: "[max_workers..<n] = max_workers # [Suc max_workers..<n]"
    using assms(9) by (simp add: upt_conv_Cons)
  have C: "?step Start ?p2 =
      Some \<lparr>pending = [Suc max_workers..<n],
            in_flight = map (\<lambda>i. (i, Some (?cmd i))) [Suc 0..<max_workers] @ [(max_workers, Some (?cmd max_workers))],
            pstate = ?s2\<lparr>trace := trace ?s2 @ [Spawn (?cmd max_workers) PIPE]\<rparr>\<rparr>"
    using assms(8)
    by (simp add: pool_step_def Let_def pend upscale_frame_start_quiet [OF assms(1-3)])
  have fl: "map (\<lambda>i. (i, Some (?cmd i))) [Suc 0..<max_workers] @ [(max_workers, Some (?cmd max_workers))]
            = map (\<lambda>i. (i, Some (?cmd i))) [Suc 0..<Suc max_workers]"
    using assms(8) by simp
  show ?thesis
    unfolding upscale_frames_pool_def pool_run_append A
    using B C by (simp add: fl)
qed


subsection \<open>Six frames and five workers\<close>

lemma more_frames:
  "raw_frame temp_dir 2 = ''.temp_frames/frame_00002.png''"
  "raw_frame temp_dir 3 = ''.temp_frames/frame_00003.png''"
  "raw_frame temp_dir 4 = ''.temp_frames/frame_00004.png''"
  "raw_frame temp_dir 5 = ''.temp_frames/frame_00005.png''"
  "up_frame temp_dir 2 = ''.temp_frames/frame_00002_up.png''"
  "up_frame temp_dir 3 = ''.temp_frames/frame_00003_up.png''"
  "up_frame temp_dir 4 = ''.temp_frames/frame_00004_up.png''"
  "up_frame temp_dir 5 = ''.temp_frames/frame_00005_up.png''"
  by (simp_all add: raw_frame_def up_frame_def path_join_def temp_dir_def fmt05_def str_nat.simps
      digit_char_def numeral_eq_Suc)

lemma upt_0_5: "[0..<5] = [0, Suc 0, 2, 3, 4]"
  by (simp add: upt_rec)

lemma upt_1_6: "[Suc 0..<6] = [Suc 0, 2, 3, 4, 5]"
  by (simp add: upt_rec)

text \<open>
  Claim C1 is not what the script does. The task of the failing frame reports the
  frame and the exit status and releases the staging area, but its \<^verbatim>\<open>sys.exit(1)\<close>
  ends only the task: the pool keeps the exception in the task's future, which
  nobody reads, and the worker goes on with the queue.

  First, six frames and the pool of a machine with one processor, five workers,
  where the resizer of frame 0 exits with status 3 before any other resizer has
  ended. Five tasks start, the task of frame 0 reports the failure and removes the
  staging directory, and its worker then takes frame 5 from the queue and runs its
  command, on an input file that is gone: a frame is dispatched after the failure.

  Second, a video of one frame whose resizer exits with status 3. The run does not
  end in the task: the main thread goes on to the reassembly step, whose
  completeness check reports frame 0 as missing, and the process ends there in the
  uncaught \<^verbatim>\<open>FileNotFoundError\<close> of a second \<^verbatim>\<open>cleanup\<close> of the removed directory.
\<close>

theorem upscale_failure_not_fatal:
  "(\<exists>p. upscale_frames_pool 5 [Start, Start, Start, Start, Start, Finish 0, Start]
          (demo_world 6 (\<lambda>p. True) fail_frame0) temp_dir 6 ''ImageResizer.exe'' 200 ''2'' ''XBR''
          (640, 360) False staged_six = Some p
      \<and> trace (pstate p) =
          [Spawn [''ImageResizer.exe'', ''/load'', ''.temp_frames/frame_00000.png'', ''/resize'',
                  ''auto'', ''XBR 2x'', ''/save'', ''.temp_frames/frame_00000_up.png''] PIPE,
           Spawn [''ImageResizer.exe'', ''/load'', ''.temp_frames/frame_00001.png'', ''/resize'',
                  ''auto'', ''XBR 2x'', ''/save'', ''.temp_frames/frame_00001_up.png''] PIPE,
           Spawn [''ImageResizer.exe'', ''/load'', ''.temp_frames/frame_00002.png'', ''/resize'',
                  ''auto'', ''XBR 2x'', ''/save'', ''.temp_frames/frame_00002_up.png''] PIPE,
           Spawn [''ImageResizer.exe'', ''/load'', ''.temp_frames/frame_00003.png'', ''/resize'',
                  ''auto'', ''XBR 2x'', ''/save'', ''.temp_frames/frame_00003_up.png''] PIPE,
           Spawn [''ImageResizer.exe'', ''/load'', ''.temp_frames/frame_00004.png'', ''/resize'',
                  ''auto'', ''XBR 2x'', ''/save'', ''.temp_frames/frame_00004_up.png''] PIPE,
           Print ''Error: Upscaling frame 0 failed with exit code 3.'',
           Spawn [''ImageResizer.exe'', ''/load'', ''.temp_frames/frame_00005.png'', ''/resize'',
                  ''auto'', ''XBR 2x'', ''/save'', ''.temp_frames/frame_00005_up.png''] PIPE]
      \<and> pending p = [] \<and> map fst (in_flight p) = [1, 2, 3, 4, 5]
      \<and> dirs (pstate p) = {}
      \<and> ''.temp_frames/frame_00005.png'' \<notin> files (pstate p))
   \<and> (\<exists>s'. main (demo_world 1 (\<lambda>p. True) fail_frame0) (demo_config ''200'' ''2'') ''clip.mkv''
            False demo_state = Some (Raise FileNotFoundError, s')
        \<and> trace s' =
            [Print ''Extracting frames...'',
             Spawn [''ImageResizer.exe'', ''/load'', ''.temp_frames/frame_00000.png'', ''/resize'',
                    ''auto'', ''XBR 2x'', ''/save'', ''.temp_frames/frame_00000_up.png''] PIPE,
             Print ''Error: Upscaling frame 0 failed with exit code 3.'',
             Print ''Missing upscaled frames: [0]'']
        \<and> dirs s' = {})"
proof -
  let ?w = "demo_world 6 (\<lambda>p. True) fail_frame0 :: int world"
  have 1: "int_of_float ?w (int_times_float ?w (fst (640, 360)) 200) = Inr 1280"
    by (simp add: demo_world_simps)
  have 2: "int_of_float ?w (int_times_float ?w (snd (640, 360)) 200) = Inr 720"
    by (simp add: demo_world_simps)
  have 3: "float_of_str ?w ''2'' = Inr 200"
    by (simp add: demo_world_simps centi_of_str_2)
  have 4: "subprocess_run ?w (upscale_cmd ?w ''ImageResizer.exe'' (raw_frame temp_dir 0)
             (up_frame temp_dir 0) 200 ''2'' 200 ''XBR'' 1280 720)
           = Exited 3 (Text []) (Text ''load failed'')"
    by (simp add: demo_world_simps fail_frame0_def upscale_cmd_def demo_frames)
  have 5: "temp_dir \<in> dirs staged_six"
    by (simp add: temp_dir_def staged_six_def)
  have 6: "children temp_dir (dirs staged_six) = {}"
    by (simp add: temp_dir_def staged_six_def children_def is_child_def)
  have sched: "[Start, Start, Start, Start, Start, Finish 0, Start] = replicate 5 Start @ [Finish 0, Start]"
    by (simp add: numeral_eq_Suc)
  have tr: "trace staged_six = []" and dr: "dirs staged_six - {temp_dir} = {}"
    by (simp_all add: staged_six_def temp_dir_def)
  have "(3::int) \<noteq> 0" by simp
  note r = pool_frame_after_failure [OF 1 2 3 4 this 5 6, where max_workers = 5 and n = 6]
  have gone: "''.temp_frames/frame_00005.png'' \<in> children temp_dir (files staged_six)"
    by (simp add: staged_six_def children_def is_child_def temp_dir_def)
  have a: "\<exists>p. upscale_frames_pool 5 [Start, Start, Start, Start, Start, Finish 0, Start]
          ?w temp_dir 6 ''ImageResizer.exe'' 200 ''2'' ''XBR'' (640, 360) False staged_six = Some p
      \<and> trace (pstate p) =
          [Spawn [''ImageResizer.exe'', ''/load'', ''.temp_frames/frame_00000.png'', ''/resize'',
                  ''auto'', ''XBR 2x'', ''/save'', ''.temp_frames/frame_00000_up.png''] PIPE,
           Spawn [''ImageResizer.exe'', ''/load'', ''.temp_frames/frame_00001.png'', ''/resize'',
                  ''auto'', ''XBR 2x'', ''/save'', ''.temp_frames/frame_00001_up.png''] PIPE,
           Spawn [''ImageResizer.exe'', ''/load'', ''.temp_frames/frame_00002.png'', ''/resize'',
                  ''auto'', ''XBR 2x'', ''/save'', ''.temp_frames/frame_00002_up.png''] PIPE,
           Spawn [''ImageResizer.exe'', ''/load'', ''.temp_frames/frame_00003.png'', ''/resize'',
                  ''auto'', ''XBR 2x'', ''/save'', ''.temp_frames/frame_00003_up.png''] PIPE,
           Spawn [''ImageResizer.exe'', ''/load'', ''.temp_frames/frame_00004.png'', ''/resize'',
                  ''auto'', ''XBR 2x'', ''/save'', ''.temp_frames/frame_00004_up.png''] PIPE,
           Print ''Error: Upscaling frame 0 failed with exit code 3.'',
           Spawn [''ImageResizer.exe'', ''/load'', ''.temp_frames/frame_00005.png'', ''/resize'',
                  ''auto'', ''XBR 2x'', ''/save'', ''.temp_frames/frame_00005_up.png''] PIPE]
      \<and> pending p = [] \<and> map fst (in_flight p) = [1, 2, 3, 4, 5]
      \<and> dirs (pstate p) = {}
      \<and> ''.temp_frames/frame_00005.png'' \<notin> files (pstate p)"
    unfolding sched
    by (simp add: r upt_0_5 upt_1_6 demo_frames more_frames upscale_cmd_def demo_world_simps
        gone tr dr str_nat.simps str_int_def digit_char_def)
  have b: "\<exists>s'. main (demo_world 1 (\<lambda>p. True) fail_frame0) (demo_config ''200'' ''2'') ''clip.mkv''
            False demo_state = Some (Raise FileNotFoundError, s')
        \<and> trace s' =
            [Print ''Extracting frames...'',
             Spawn [''ImageResizer.exe'', ''/load'', ''.temp_frames/frame_00000.png'', ''/resize'',
                    ''auto'', ''XBR 2x'', ''/save'', ''.temp_frames/frame_00000_up.png''] PIPE,
             Print ''Error: Upscaling frame 0 failed with exit code 3.'',
             Print ''Missing upscaled frames: [0]'']
        \<and> dirs s' = {}"
    by (simp add: eval_simps fail_frame0_def missing_message_def str_nat_list_def str_nat.simps
        str_int_def digit_char_def)
  from a b show ?thesis
    by (rule conjI)
qed

section \<open>A failing reassembly\<close>







section \<open>The verbose flag\<close>

text \<open>
  The command of an upscale task and the command of the reassembly step do not
  depend on the verbose flag: from the same state, the commands run are the same
  in either verbosity, and they are the functions \<open>upscale_cmd\<close> and
  \<open>ffmpeg_cmd_of\<close> of the job parameters.
\<close>

lemma upscale_command_verbose_independent:
  "spawned (trace (snd (upscale_frame w i d irp sc mag alg res True s)))
   = spawned (trace (snd (upscale_frame w i d irp sc mag alg res False s)))"
  by (simp add: spawned_upscale_frame)

lemma spawned_encode_called_process_error:
  "spawned (trace (snd (encode_called_process_error v cmd rc err s))) = spawned (trace s)"
  by (simp add: encode_called_process_error_def seq_def print_def raise_def return_unit_def
      spawned_append split: stream.splits)

lemma spawned_encode_exception:
  "spawned (trace (snd (encode_exception v cmd msg s))) = spawned (trace s)"
  by (simp add: encode_exception_def seq_def print_def return_unit_def spawned_append)

lemma spawned_encode_video:
  "spawned (trace (snd (encode_video w input out d n args v s))) =
     spawned (trace s)
     @ (if isfile input s \<and> get_missing_frames n d s = []
        then [ffmpeg_cmd_of w (cv2_fps w input) (path_join d ''frame_%05d_up.png'') input args out]
        else [])"
proof (cases "isfile input s")
  case False
  then show ?thesis
    by (simp add: encode_video_input_missing spawned_append)
next
  case True
  show ?thesis
  proof (cases "get_missing_frames n d s = []")
    case False
    with True show ?thesis
      using encode_video_missing_fatal [of input s n d w out args v] by simp
  next
    case m: True
    with True show ?thesis
      by (simp add: encode_video_def get_fps_def Let_def spawn_def print_def seq_def
          spawned_encode_called_process_error spawned_encode_exception spawned_append
          split: proc_result.splits stream.splits)
  qed
qed

lemma encode_command_verbose_independent:
  "spawned (trace (snd (encode_video w input out d n args True s)))
   = spawned (trace (snd (encode_video w input out d n args False s)))"
  by (simp add: spawned_encode_video)

lemma centi_of_str_2x:
  "centi_of_str ''2x'' = Inl (''could not convert string to float: '' @ [CHR 0x27] @ ''2x'' @ [CHR 0x27])"
  by (simp add: centi_of_str_def)

text \<open>
  Claim C10 says that the two command lines are functions of the job parameters and
  the same in either verbosity, which the lemmas above show, and that verbose
  affects only what is printed and how the output of the external programs is
  captured. The last part does not hold on the code. With a magnification factor
  that is not a number, the task without verbose releases the staging area and
  ends with \<^verbatim>\<open>sys.exit(1)\<close>, while with verbose its handler reads the unassigned
  \<^verbatim>\<open>cmd\<close>, ends with \<^verbatim>\<open>UnboundLocalError\<close> and leaves the staging area in place.
  With a resizer that succeeds but writes bytes that are not UTF-8, the run without
  verbose succeeds and produces the output file, while the verbose run takes the
  decoding error for a failed frame, never runs the reassembly command, produces
  no output file and ends with exit status 1.
\<close>

theorem verbose_changes_outcome:
  "fst (upscale_frame (demo_world 2 (\<lambda>p. True) all_succeed) 0 temp_dir ''ImageResizer.exe'' 200
          ''2x'' ''XBR'' (640, 360) False staged_state) = Raise (SystemExit 1)
   \<and> temp_dir \<notin> dirs (snd (upscale_frame (demo_world 2 (\<lambda>p. True) all_succeed) 0 temp_dir
          ''ImageResizer.exe'' 200 ''2x'' ''XBR'' (640, 360) False staged_state))
   \<and> fst (upscale_frame (demo_world 2 (\<lambda>p. True) all_succeed) 0 temp_dir ''ImageResizer.exe'' 200
          ''2x'' ''XBR'' (640, 360) True staged_state) = Raise UnboundLocalError
   \<and> temp_dir \<in> dirs (snd (upscale_frame (demo_world 2 (\<lambda>p. True) all_succeed) 0 temp_dir
          ''ImageResizer.exe'' 200 ''2x'' ''XBR'' (640, 360) True staged_state))
   \<and> (\<exists>s'. main (demo_world 1 (\<lambda>p. True) garbled_output) (demo_config ''200'' ''2'') ''clip.mkv''
          False demo_state = Some (Return (), s')
        \<and> ''clip_upscaled_XBR2x.mp4'' \<in> files s')
   \<and> (\<exists>s'. main (demo_world 1 (\<lambda>p. True) garbled_output) (demo_config ''200'' ''2'') ''clip.mkv''
          True demo_state = Some (Raise FileNotFoundError, s')
        \<and> ''clip_upscaled_XBR2x.mp4'' \<notin> files s'
        \<and> spawned (trace s') =
            [[''ImageResizer.exe'', ''/load'', ''.temp_frames/frame_00000.png'', ''/resize'',
              ''auto'', ''XBR 2x'', ''/save'', ''.temp_frames/frame_00000_up.png'']])"
proof -
  have a: "fst (upscale_frame (demo_world 2 (\<lambda>p. True) all_succeed) 0 temp_dir ''ImageResizer.exe'' 200
          ''2x'' ''XBR'' (640, 360) False staged_state) = Raise (SystemExit 1)
   \<and> temp_dir \<notin> dirs (snd (upscale_frame (demo_world 2 (\<lambda>p. True) all_succeed) 0 temp_dir
          ''ImageResizer.exe'' 200 ''2x'' ''XBR'' (640, 360) False staged_state))"
    by (simp add: upscale_frame_def upscale_exception_def seq_def print_def raise_def return_unit_def
        cleanup_def children_def is_child_def demo_world_simps centi_of_str_2x staged_state_def
        temp_dir_def Let_def)
  have b: "fst (upscale_frame (demo_world 2 (\<lambda>p. True) all_succeed) 0 temp_dir ''ImageResizer.exe'' 200
          ''2x'' ''XBR'' (640, 360) True staged_state) = Raise UnboundLocalError
   \<and> temp_dir \<in> dirs (snd (upscale_frame (demo_world 2 (\<lambda>p. True) all_succeed) 0 temp_dir
          ''ImageResizer.exe'' 200 ''2x'' ''XBR'' (640, 360) True staged_state))"
    by (simp add: upscale_frame_def upscale_exception_def seq_def print_def raise_def return_unit_def
        demo_world_simps centi_of_str_2x staged_state_def temp_dir_def Let_def)
  have c: "\<exists>s'. main (demo_world 1 (\<lambda>p. True) garbled_output) (demo_config ''200'' ''2'') ''clip.mkv''
          False demo_state = Some (Return (), s')
        \<and> ''clip_upscaled_XBR2x.mp4'' \<in> files s'"
    by (simp add: eval_simps garbled_output_def)
  have d: "\<exists>s'. main (demo_world 1 (\<lambda>p. True) garbled_output) (demo_config ''200'' ''2'') ''clip.mkv''
          True demo_state = Some (Raise FileNotFoundError, s')
        \<and> ''clip_upscaled_XBR2x.mp4'' \<notin> files s'
        \<and> spawned (trace s') =
            [[''ImageResizer.exe'', ''/load'', ''.temp_frames/frame_00000.png'', ''/resize'',
              ''auto'', ''XBR 2x'', ''/save'', ''.temp_frames/frame_00000_up.png'']]"
    by (simp add: eval_simps garbled_output_def missing_message_def str_nat_list_def
        str_nat.simps digit_char_def)
  from a b c d show ?thesis by blast
qed

end
